theory Spec2Isabelle
  imports Main "HOL-Library.Sublist"
begin

section \<open>Errors\<close>

text \<open>
  The error classes the actions work with.  \<open>IllegalArgumentError\<close>, \<open>NotFoundError\<close>
  and \<open>ForbiddenError\<close> are the classes \<^verbatim>\<open>srmChallenges.js\<close> requires;
  \<open>UnauthorizedError\<close> is the error of a caller that is not logged in; a
  \<open>TypeError\<close> is what the JavaScript runtime throws when a property of
  \<^verbatim>\<open>undefined\<close> is read; \<open>OtherError\<close> stands for whatever else a collaborator
  (the data access layer, the helper) hands back.
\<close>

datatype error =
    IllegalArgumentError string
  | NotFoundError string
  | ForbiddenError string
  | UnauthorizedError string
  | TypeError string
  | OtherError string

text \<open>\<^verbatim>\<open>a || b\<close> on two values that are an error object or \<^verbatim>\<open>null\<close>.\<close>

definition orElse :: "error option \<Rightarrow> error option \<Rightarrow> error option" where
  "orElse a b = (case a of Some e \<Rightarrow> Some e | None \<Rightarrow> b)"

section \<open>JavaScript values\<close>

text \<open>
  A JavaScript number as the actions use it: an integer, or \<open>NaN\<close>, which also stands
  for every value that is not an integer (the actions only compare such a value with
  \<open>-1\<close> and hand it to a helper check).  A number is a double: the result of an
  operation is rounded to 53 significant bits, to the nearest, ties to even.  Below
  \<open>2^53\<close> nothing is rounded.
\<close>

datatype number = NaN | Num int

text \<open>How many low bits of a non-negative integer do not fit into 53 bits.\<close>

function excessBits :: "int \<Rightarrow> nat" where
  "excessBits m = (if m < 2 ^ 53 then 0 else Suc (excessBits (m div 2)))"
  by pat_completeness auto
termination
  by (relation "measure nat") auto

definition roundDouble :: "int \<Rightarrow> int" where
  "roundDouble x =
     (let m = \<bar>x\<bar> in
      if m < 2 ^ 53 then x
      else
        let e = excessBits m;
            q = m div 2 ^ e;
            r = m mod 2 ^ e;
            q' = (if 2 * r > 2 ^ e \<or> (2 * r = 2 ^ e \<and> odd q) then q + 1 else q)
        in sgn x * (q' * 2 ^ e))"

fun num_sub :: "number \<Rightarrow> number \<Rightarrow> number" where
  "num_sub (Num a) (Num b) = Num (roundDouble (a - b))"
| "num_sub _ _ = NaN"

fun num_mul :: "number \<Rightarrow> number \<Rightarrow> number" where
  "num_mul (Num a) (Num b) = Num (roundDouble (a * b))"
| "num_mul _ _ = NaN"

datatype jsval = Undefined | Null | Number number | String string

text \<open>A database row, a parameter object for a query, a row of a response: property
  access on an object gives \<^verbatim>\<open>undefined\<close> for a property that is not there.\<close>

type_synonym obj = "string \<Rightarrow> jsval"

definition emptyObj :: obj where
  "emptyObj = (\<lambda>_. Undefined)"

text \<open>The request parameters: strings, a parameter that was not sent is \<^verbatim>\<open>undefined\<close>.\<close>

type_synonym params = "string \<rightharpoonup> string"

text \<open>\<^verbatim>\<open>s || d\<close> for a parameter \<open>s\<close>: \<^verbatim>\<open>undefined\<close> and the empty string are falsy.\<close>

definition orString :: "string option \<Rightarrow> string \<Rightarrow> string" where
  "orString s d = (case s of None \<Rightarrow> d | Some v \<Rightarrow> if v = [] then d else v)"

text \<open>
  \<^verbatim>\<open>Number(s || d)\<close> and \<^verbatim>\<open>Number(s)\<close> for a parameter \<open>s\<close>.  The conversion
  of a non-empty string is the built-in one, taken as a parameter (\<open>toNumber\<close>), and
  so is the formatting of a date by the moment library (\<open>momentFormat value zone format\<close>
  for \<^verbatim>\<open>moment(value).zone(zone).format(format)\<close>);
  \<^verbatim>\<open>Number(undefined)\<close> is \<open>NaN\<close> and \<^verbatim>\<open>Number("")\<close> is \<open>0\<close>.
\<close>

record lib =
  toNumber :: "string \<Rightarrow> number"
  momentFormat :: "string \<Rightarrow> string \<Rightarrow> string \<Rightarrow> string"

definition NumberOr :: "lib \<Rightarrow> string option \<Rightarrow> int \<Rightarrow> number" where
  "NumberOr l s d =
     (case s of None \<Rightarrow> Num d | Some v \<Rightarrow> if v = [] then Num d else toNumber l v)"

definition NumberOf :: "lib \<Rightarrow> string option \<Rightarrow> number" where
  "NumberOf l s =
     (case s of None \<Rightarrow> NaN | Some v \<Rightarrow> if v = [] then Num 0 else toNumber l v)"

text \<open>\<^verbatim>\<open>a > b\<close> on numbers: false when either is \<open>NaN\<close>.\<close>

fun num_gt :: "number \<Rightarrow> number \<Rightarrow> bool" where
  "num_gt (Num a) (Num b) = (a > b)"
| "num_gt _ _ = False"

text \<open>The decimal text of a number, as string concatenation produces it.\<close>

fun showNat :: "nat \<Rightarrow> string" where
  "showNat n = (if n < 10 then [char_of (48 + n)]
                else showNat (n div 10) @ [char_of (48 + n mod 10)])"

definition showInt :: "int \<Rightarrow> string" where
  "showInt i = (if i < 0 then ''-'' @ showNat (nat (- i)) else showNat (nat i))"

definition showNumber :: "number \<Rightarrow> string" where
  "showNumber n = (case n of NaN \<Rightarrow> ''NaN'' | Num i \<Rightarrow> showInt i)"

text \<open>\<^verbatim>\<open>toLowerCase\<close> and \<^verbatim>\<open>toUpperCase\<close>, on the ASCII letters.\<close>

definition lowerChar :: "char \<Rightarrow> char" where
  "lowerChar c = (let n = (of_char c :: nat) in if 65 \<le> n \<and> n \<le> 90 then char_of (n + 32) else c)"

definition upperChar :: "char \<Rightarrow> char" where
  "upperChar c = (let n = (of_char c :: nat) in if 97 \<le> n \<and> n \<le> 122 then char_of (n - 32) else c)"

definition toLowerCase :: "string \<Rightarrow> string" where
  "toLowerCase s = map lowerChar s"

definition toUpperCase :: "string \<Rightarrow> string" where
  "toUpperCase s = map upperChar s"

text \<open>\<^verbatim>\<open>s.split(',')\<close>: the empty string splits into one empty element.\<close>

fun split :: "char \<Rightarrow> string \<Rightarrow> string list" where
  "split d [] = [[]]"
| "split d (c # cs) =
     (if c = d then [] # split d cs
      else (case split d cs of
              [] \<Rightarrow> [[c]]
            | w # ws \<Rightarrow> (c # w) # ws))"

text \<open>\<^verbatim>\<open>xs.join(',')\<close>.\<close>

fun join :: "string \<Rightarrow> string list \<Rightarrow> string" where
  "join d [] = []"
| "join d [x] = x"
| "join d (x # y # ys) = x @ d @ join d (y # ys)"

text \<open>\<^verbatim>\<open>trim\<close>: among the characters below 256, white space is the blank, the tab, the
  line feed, the vertical tab, the form feed, the carriage return and the no-break
  space.\<close>

definition isSpace :: "char \<Rightarrow> bool" where
  "isSpace c = (c = CHR 0x20 \<or> c = CHR 0x09 \<or> c = CHR 0x0A \<or> c = CHR 0x0B \<or> c = CHR 0x0C
                \<or> c = CHR 0x0D \<or> c = CHR 0xA0)"

definition trim :: "string \<Rightarrow> string" where
  "trim s = rev (dropWhile isSpace (rev (dropWhile isSpace s)))"

definition isDefined :: "string option \<Rightarrow> bool" where
  \<comment> \<open>Modelled from the spec: the mixin \<^verbatim>\<open>_.isDefined\<close>, which is not among the sources;
      a parameter is defined unless the caller omits it.\<close>
  "isDefined v = (v \<noteq> None)"

section \<open>The collaborators\<close>

text \<open>
  The object \<^verbatim>\<open>api.helper\<close> (with the mixin \<^verbatim>\<open>_.checkArgument\<close>), whose functions
  the actions call.  Its code is not part of the action file, so the actions are
  modelled over an arbitrary helper.
\<close>

record helper =
  handleNoConnection :: error
  checkDefined :: "string option \<Rightarrow> string \<Rightarrow> error option"
  checkMaxNumber :: "number \<Rightarrow> int \<Rightarrow> string \<Rightarrow> error option"
  checkPageIndex :: "number \<Rightarrow> string \<Rightarrow> error option"
  checkPositiveInteger :: "number \<Rightarrow> string \<Rightarrow> error option"
  checkContains :: "string list \<Rightarrow> string \<Rightarrow> string \<Rightarrow> error option"
  checkArgument :: "bool \<Rightarrow> string \<Rightarrow> error option"
  checkSubset :: "string list \<Rightarrow> string list \<Rightarrow> string \<Rightarrow> error option"
  validateDate :: "string \<Rightarrow> string \<Rightarrow> string \<Rightarrow> error option"
  checkDates :: "string \<Rightarrow> string \<Rightarrow> string \<Rightarrow> error option"
  getLowerCaseList :: "string list \<Rightarrow> string list"
  getSortColumnDBName :: "string \<Rightarrow> string"
  ListType_ACTIVE :: string
  ListType_UPCOMING :: string
  editSql :: "string \<Rightarrow> string \<Rightarrow> string \<Rightarrow> string"
  readQuery :: "string \<Rightarrow> error + string"
  checkMaxInt :: "number \<Rightarrow> string \<Rightarrow> error option"
  checkNonNegativeInteger :: "number \<Rightarrow> string \<Rightarrow> error option"
  checkSortColumn :: "string list \<Rightarrow> string \<Rightarrow> error option"
  checkMember :: "obj option \<Rightarrow> string \<Rightarrow> error option"
  consts_ASCENDING :: string
  helper_MAX_INT :: int
  transferDBResults2Response :: "obj list \<Rightarrow> obj list"
  checkStringPopulated :: "string option \<Rightarrow> string \<Rightarrow> error option"
  checkString :: "string \<Rightarrow> string \<Rightarrow> error option"
  checkAdmin :: "obj option \<Rightarrow> string \<Rightarrow> string \<Rightarrow> error option"

text \<open>
  The data access layer.  \<^verbatim>\<open>executeQuery\<close> runs a named query, \<^verbatim>\<open>executeSqlQuery\<close>
  a query text; each answers with rows or with an error.  Every call an action makes
  is recorded, in the order of the source.
\<close>

datatype call = ExecuteQuery string obj | ExecuteSqlQuery string obj

record api =
  helper :: helper
  executeQuery :: "string \<Rightarrow> obj \<Rightarrow> error + obj list"
  executeSqlQuery :: "string \<Rightarrow> obj \<Rightarrow> error + obj list"
  databaseTimezoneIdentifier :: string

text \<open>A connection: the parameters of the request, whether the connection map of the
  databases is there, and the caller (\<open>None\<close> for an anonymous one).\<close>

record connection =
  params :: params
  dbConnectionMap :: bool
  caller :: "obj option"

text \<open>The response of a list action.\<close>

record envelope =
  total :: jsval
  pageIndex :: number
  pageSize :: jsval
  data :: "obj list"

text \<open>What an action leaves behind: the response or the error, and the calls made.\<close>

type_synonym 'a outcome = "(error + 'a) \<times> call list"

fun callParams :: "call \<Rightarrow> obj" where
  "callParams (ExecuteQuery name ps) = ps"
| "callParams (ExecuteSqlQuery text ps) = ps"

text \<open>What the store answers to a call.\<close>

fun answer :: "api \<Rightarrow> call \<Rightarrow> error + obj list" where
  "answer a (ExecuteQuery name ps) = executeQuery a name ps"
| "answer a (ExecuteSqlQuery text ps) = executeSqlQuery a text ps"

section \<open>Constants of the actions\<close>

definition ALLOWABLE_SORT_COLUMN :: "string list" where
  "ALLOWABLE_SORT_COLUMN =
     [''roundId'', ''name'', ''startDate'', ''totalCompetitors'', ''divICompetitors'',
      ''divIICompetitors'', ''divITotalSolutionsSubmitted'', ''divIAverageSolutionsSubmitted'',
      ''divIITotalSolutionsSubmitted'', ''divIIAverageSolutionsSubmitted'',
      ''divITotalSolutionsChallenged'', ''divIAverageSolutionsChallenged'',
      ''divIITotalSolutionsChallenged'', ''divIIAverageSolutionsChallenged'',
      ''submissionEndDate'']"

definition ALLOWABLE_SCHEDULE_SORT_COLUMN :: "string list" where
  "ALLOWABLE_SCHEDULE_SORT_COLUMN =
     [''registrationStartTime'', ''registrationEndTime'', ''codingStartTime'',
      ''codingEndTime'', ''intermissionStartTime'', ''intermissionEndTime'',
      ''challengeStartTime'', ''challengeEndTime'', ''systestStartTime'', ''systestEndTime'']"

definition VALID_ROUND_STATUS :: "string list" where
  "VALID_ROUND_STATUS = [''f'', ''a'', ''p'']"

definition VALID_ROUND_TYPES :: "string list" where
  "VALID_ROUND_TYPES = [''Single Round Match'', ''Tournament Round'', ''Long Round'']"

definition SCHEDULE_DATE_FORMAT :: string where
  "SCHEDULE_DATE_FORMAT = ''YYYY-MM-DDTHH:mm:ss.SSSZ''"

definition MAX_INT :: int where
  "MAX_INT = 2147483647"

definition DEFAULT_PAGE_SIZE :: int where
  "DEFAULT_PAGE_SIZE = 50"

section \<open>Searching SRM challenges\<close>

text \<open>The sort defaults of \<^verbatim>\<open>searchSRMChallenges\<close>: the values of the variables
  \<^verbatim>\<open>sortColumn\<close> and \<^verbatim>\<open>sortOrder\<close> when the validation starts.\<close>

definition search_sortColumn :: "params \<Rightarrow> string" where
  "search_sortColumn ps =
     (let sortColumn = toLowerCase (orString (ps ''sortColumn'') ''roundId'')
      in if sortColumn = ''submissionenddate'' then ''roundid'' else sortColumn)"

definition search_sortOrder :: "params \<Rightarrow> string" where
  "search_sortOrder ps =
     (let sortOrder = toLowerCase (orString (ps ''sortOrder'') ''asc'')
      in if \<not> isDefined (ps ''sortOrder'') \<and> search_sortColumn ps = ''roundid''
         then ''desc'' else sortOrder)"

text \<open>One row of the response of \<^verbatim>\<open>searchSRMChallenges\<close>.\<close>

definition search_challenge :: "obj \<Rightarrow> obj" where
  "search_challenge item = emptyObj
     (''roundId'' := item ''round_id'',
      ''name'' := item ''name'',
      ''startDate'' := item ''start_date'',
      ''submissionEndDate'' := item ''end_date'',
      ''totalCompetitors'' := item ''total_competitors'',
      ''divICompetitors'' := item ''div_i_competitors'',
      ''divIICompetitors'' := item ''div_ii_competitors'',
      ''divITotalSolutionsSubmitted'' := item ''div_i_total_solutions_submitted'',
      ''divIAverageSolutionsSubmitted'' := item ''div_i_average_solutions_submitted'',
      ''divIITotalSolutionsSubmitted'' := item ''div_ii_total_solutions_submitted'',
      ''divIIAverageSolutionsSubmitted'' := item ''div_ii_average_solutions_submitted'',
      ''divITotalSolutionsChallenged'' := item ''div_i_total_solutions_challenged'',
      ''divIAverageSolutionsChallenged'' := item ''div_i_average_solutions_challenged'',
      ''divIITotalSolutionsChallenged'' := item ''div_ii_total_solutions_challenged'',
      ''divIIAverageSolutionsChallenged'' := item ''div_ii_average_solutions_challenged'')"

text \<open>
  The last step of the waterfall of a list action, shared in shape by
  \<^verbatim>\<open>searchSRMChallenges\<close> and \<^verbatim>\<open>getSRMSchedule\<close>: \<open>rawPageIndex\<close> is
  \<^verbatim>\<open>Number(params.pageIndex)\<close>, \<^verbatim>\<open>pageIndex\<close> and \<^verbatim>\<open>pageSize\<close> are the variables after
  the validation step (\<open>pIndex\<close>, \<open>pSize\<close>).  Reading \<^verbatim>\<open>results.count[0].total_count\<close> of an empty count
  result throws.
\<close>

definition buildEnvelope ::
  "(obj \<Rightarrow> obj) \<Rightarrow> number \<Rightarrow> number \<Rightarrow> number \<Rightarrow> obj list \<Rightarrow> obj list \<Rightarrow> error + envelope" where
  "buildEnvelope mapItem rawPageIndex pIndex pSize count rows =
     (if length rows = 0 then
        Inr \<lparr> total = Number (Num 0),
              pageIndex = pIndex,
              pageSize = (if rawPageIndex = Num (- 1) then Number (Num 0) else Number pSize),
              data = [] \<rparr>
      else (case count of
              [] \<Rightarrow> Inl (TypeError ''Cannot read property total_count of undefined'')
            | c # _ \<Rightarrow>
                let totalCount = c ''total_count''
                in Inr \<lparr> total = totalCount,
                         pageIndex = pIndex,
                         pageSize = (if rawPageIndex = Num (- 1) then totalCount else Number pSize),
                         data = map mapItem rows \<rparr>))"

text \<open>\<^verbatim>\<open>async.parallel\<close> over two queries: both are issued; an error of either ends
  the waterfall.\<close>

definition parallel2 :: "error + 'a \<Rightarrow> error + 'b \<Rightarrow> error + ('a \<times> 'b)" where
  "parallel2 a b =
     (case a of Inl e \<Rightarrow> Inl e
      | Inr x \<Rightarrow> (case b of Inl e \<Rightarrow> Inl e | Inr y \<Rightarrow> Inr (x, y)))"

text \<open>The sentinel: \<^verbatim>\<open>if (pageIndex === -1) { pageIndex = 1; pageSize = MAX_INT; }\<close>.\<close>

definition sentinelPageIndex :: "number \<Rightarrow> number" where
  "sentinelPageIndex pIndex = (if pIndex = Num (- 1) then Num 1 else pIndex)"

definition sentinelPageSize :: "number \<Rightarrow> number \<Rightarrow> number" where
  "sentinelPageSize pIndex pSize = (if pIndex = Num (- 1) then Num MAX_INT else pSize)"

text \<open>The validation step of \<^verbatim>\<open>searchSRMChallenges\<close>: the value of \<^verbatim>\<open>error\<close> after the
  chain of checks; \<open>challengeName\<close> is the pattern built before.\<close>

definition search_validate :: "lib \<Rightarrow> helper \<Rightarrow> params \<Rightarrow> string \<Rightarrow> error option" where
  "search_validate l h ps challengeName =
     (let sortOrder = search_sortOrder ps;
          sortColumn = search_sortColumn ps;
          pageIndex = NumberOr l (ps ''pageIndex'') 1;
          pageSize = NumberOr l (ps ''pageSize'') DEFAULT_PAGE_SIZE;
          listType = toUpperCase (orString (ps ''listType'') ''ACTIVE'');
          allowedSort = getLowerCaseList h ALLOWABLE_SORT_COLUMN;
          error = (if isDefined (ps ''pageIndex'') \<and> pageIndex \<noteq> Num (- 1)
                   then checkDefined h (ps ''pageSize'') ''pageSize'' else None)
      in orElse error
        (orElse (checkMaxNumber h pageIndex MAX_INT ''pageIndex'')
        (orElse (checkMaxNumber h pageSize MAX_INT ''pageSize'')
        (orElse (checkPageIndex h pageIndex ''pageIndex'')
        (orElse (checkPositiveInteger h pageSize ''pageSize'')
        (orElse (checkContains h [''asc'', ''desc''] sortOrder ''sortOrder'')
        (orElse (checkContains h [ListType_ACTIVE h, ListType_UPCOMING h] listType ''listType'')
        (orElse (checkArgument h (length challengeName \<le> 32)
                   ''The challengeName should less than 32 characters.'')
                (checkContains h allowedSort sortColumn ''sortColumn'')))))))))"

definition search_sqlParams :: "lib \<Rightarrow> helper \<Rightarrow> params \<Rightarrow> string \<Rightarrow> obj" where
  "search_sqlParams l h ps challengeName =
     (let pageIndex = NumberOr l (ps ''pageIndex'') 1;
          pageSize = NumberOr l (ps ''pageSize'') DEFAULT_PAGE_SIZE;
          listType = toUpperCase (orString (ps ''listType'') ''ACTIVE'');
          status = (if listType = ListType_ACTIVE h then ''A'' else ''F'');
          pageSize = sentinelPageSize pageIndex pageSize;
          pageIndex = sentinelPageIndex pageIndex
      in emptyObj
           (''firstRowIndex'' := Number (num_mul (num_sub pageIndex (Num 1)) pageSize),
            ''pageSize'' := Number pageSize,
            ''sortColumn'' := String (getSortColumnDBName h (search_sortColumn ps)),
            ''sortOrder'' := String (search_sortOrder ps),
            ''challengeName'' := String challengeName,
            ''status'' := String status))"

text \<open>
  \<^verbatim>\<open>searchSRMChallenges.run\<close>.  The pattern \<^verbatim>\<open>challengeName\<close> is built before the
  waterfall starts, and building it reads \<^verbatim>\<open>toLowerCase\<close> of the parameter, which
  throws when the parameter is not there.
\<close>

definition searchSRMChallenges_run :: "lib \<Rightarrow> api \<Rightarrow> connection \<Rightarrow> envelope outcome" where
  "searchSRMChallenges_run l api connection =
     (let h = helper api; ps = params connection in
      if \<not> dbConnectionMap connection then (Inl (handleNoConnection h), [])
      else
        (case ps ''challengeName'' of
           None \<Rightarrow> (Inl (TypeError ''Cannot read property toLowerCase of undefined''), [])
         | Some name \<Rightarrow>
       (let challengeName = orString (Some (''%'' @ toLowerCase name @ ''%'')) ''%''
        in (case search_validate l h ps challengeName of
              Some e \<Rightarrow> (Inl e, [])
            | None \<Rightarrow>
       (let pageIndex = NumberOr l (ps ''pageIndex'') 1;
            pageSize = NumberOr l (ps ''pageSize'') DEFAULT_PAGE_SIZE;
            sqlParams = search_sqlParams l h ps challengeName;
            calls = [ExecuteQuery ''get_srm_challenges_count'' sqlParams,
                     ExecuteQuery ''get_srm_challenges'' sqlParams]
        in (case parallel2 (executeQuery api ''get_srm_challenges_count'' sqlParams)
                           (executeQuery api ''get_srm_challenges'' sqlParams) of
              Inl e \<Rightarrow> (Inl e, calls)
            | Inr (count, rows) \<Rightarrow>
                (buildEnvelope search_challenge (NumberOf l (ps ''pageIndex''))
                   (sentinelPageIndex pageIndex) (sentinelPageSize pageIndex pageSize)
                   count rows, calls)))))))"

section \<open>The SRM schedule\<close>

definition SCHEDULE_DATE_FORMAT_DB :: string where
  "SCHEDULE_DATE_FORMAT_DB = ''YYYY-MM-DD HH:mm:ss''"

definition ROUND_TYPES :: "string \<rightharpoonup> int" where
  "ROUND_TYPES = [''single round match'' \<mapsto> 1, ''tournament round'' \<mapsto> 2, ''long round'' \<mapsto> 10]"

definition SCHEDULE_STATUS_FILTER :: string where
  "SCHEDULE_STATUS_FILTER = '' AND LOWER(r.status) IN (@filter@)'' @ [CHR 0x0A]"

definition SCHEDULE_ROUND_TYPE_FILTER :: string where
  "SCHEDULE_ROUND_TYPE_FILTER = '' AND r.round_type_id IN (@filter@)'' @ [CHR 0x0A]"

text \<open>
  The twenty phase-time filters differ in the table and column and in the comparison:
  \<open>timeFilter ''reg.start_time'' ''<=''\<close> is \<^verbatim>\<open>REGISTRATION_START_TIME_BEFORE_FILTER\<close>,
  and so on.  Each is listed with the parameter it belongs to, in the order in which
  \<^verbatim>\<open>addScheduleFilter\<close> applies them.
\<close>

definition timeFilter :: "string \<Rightarrow> string \<Rightarrow> string" where
  "timeFilter column cmp =
     '' AND extend('' @ column @ '', year to second) '' @ cmp @ '' '' @
     [CHR 0x27] @ ''@filter@'' @ [CHR 0x27, CHR 0x0A]"

definition SCHEDULE_TIME_FILTERS :: "(string \<times> string) list" where
  "SCHEDULE_TIME_FILTERS =
     [(''registrationStartTimeBefore'', timeFilter ''reg.start_time'' ''<=''),
      (''registrationStartTimeAfter'', timeFilter ''reg.start_time'' ''>=''),
      (''registrationEndTimeBefore'', timeFilter ''reg.end_time'' ''<=''),
      (''registrationEndTimeAfter'', timeFilter ''reg.end_time'' ''>=''),
      (''codingStartTimeBefore'', timeFilter ''coding.start_time'' ''<=''),
      (''codingStartTimeAfter'', timeFilter ''coding.start_time'' ''>=''),
      (''codingEndTimeBefore'', timeFilter ''coding.end_time'' ''<=''),
      (''codingEndTimeAfter'', timeFilter ''coding.end_time'' ''>=''),
      (''intermissionStartTimeBefore'', timeFilter ''intermission.start_time'' ''<=''),
      (''intermissionStartTimeAfter'', timeFilter ''intermission.start_time'' ''>=''),
      (''intermissionEndTimeBefore'', timeFilter ''intermission.end_time'' ''<=''),
      (''intermissionEndTimeAfter'', timeFilter ''intermission.end_time'' ''>=''),
      (''challengeStartTimeBefore'', timeFilter ''challenge.start_time'' ''<=''),
      (''challengeStartTimeAfter'', timeFilter ''challenge.start_time'' ''>=''),
      (''challengeEndTimeBefore'', timeFilter ''challenge.end_time'' ''<=''),
      (''challengeEndTimeAfter'', timeFilter ''challenge.end_time'' ''>=''),
      (''systestStartTimeBefore'', timeFilter ''systest.start_time'' ''<=''),
      (''systestStartTimeAfter'', timeFilter ''systest.start_time'' ''>=''),
      (''systestEndTimeBefore'', timeFilter ''systest.end_time'' ''<=''),
      (''systestEndTimeAfter'', timeFilter ''systest.end_time'' ''>='')]"

text \<open>The quoted, lower-cased, trimmed elements of a comma-delimited list, joined again.\<close>

definition quotedList :: "string \<Rightarrow> string" where
  "quotedList v =
     join '','' (map (\<lambda>s. [CHR 0x27] @ trim (toLowerCase s) @ [CHR 0x27]) (split CHR '','' v))"

text \<open>
  What \<^verbatim>\<open>join\<close> prints for \<^verbatim>\<open>ROUND_TYPES[key]\<close>.  \<^verbatim>\<open>ROUND_TYPES\<close> is a plain object:
  besides its three keys the lookup finds what the object inherits, of which
  \<^verbatim>\<open>constructor\<close> (a function) and \<^verbatim>\<open>__proto__\<close> (an object) are in lower case.  Any
  other key gives \<^verbatim>\<open>undefined\<close>, which \<^verbatim>\<open>join\<close> prints as the empty string.
\<close>

definition roundTypeText :: "string \<Rightarrow> string" where
  "roundTypeText key =
     (case ROUND_TYPES key of
        Some n \<Rightarrow> showInt n
      | None \<Rightarrow> if key = ''constructor'' then ''function Object() { [native code] }''
                else if key = ''__proto__'' then ''[object Object]''
                else [])"

text \<open>\<^verbatim>\<open>addScheduleFilter(query, parameters, helper)\<close>; \<open>zone\<close> is the value of the
  variable \<^verbatim>\<open>SCHEDULE_TIMEZONE\<close>.\<close>

definition addScheduleFilter :: "lib \<Rightarrow> string \<Rightarrow> string \<Rightarrow> params \<Rightarrow> helper \<Rightarrow> string" where
  "addScheduleFilter l zone query parameters h =
     (let query = (case parameters ''statuses'' of
                     None \<Rightarrow> query
                   | Some v \<Rightarrow> editSql h query SCHEDULE_STATUS_FILTER (quotedList v));
          query = (case parameters ''types'' of
                     None \<Rightarrow> query
                   | Some v \<Rightarrow> editSql h query SCHEDULE_ROUND_TYPE_FILTER
                       (join '','' (map (\<lambda>s. roundTypeText (trim (toLowerCase s)))
                                      (split CHR '','' v))))
      in foldl (\<lambda>q (name, template).
                  case parameters name of
                    None \<Rightarrow> q
                  | Some v \<Rightarrow> editSql h q template (momentFormat l v zone SCHEDULE_DATE_FORMAT_DB))
           query SCHEDULE_TIME_FILTERS)"

definition validatePhaseTime ::
  "error option \<Rightarrow> string option \<Rightarrow> string \<Rightarrow> string option \<Rightarrow> string \<Rightarrow> helper \<Rightarrow> error option" where
  "validatePhaseTime error phaseTimeBefore timeBeforeStr phaseTimeAfter timeEndStr h =
     (let error = (case phaseTimeBefore of
                     None \<Rightarrow> error
                   | Some b \<Rightarrow> orElse error (validateDate h b timeBeforeStr SCHEDULE_DATE_FORMAT));
          error = (case phaseTimeAfter of
                     None \<Rightarrow> error
                   | Some a \<Rightarrow> orElse error (validateDate h a timeEndStr SCHEDULE_DATE_FORMAT));
          error = (case (phaseTimeAfter, phaseTimeBefore) of
                     (Some a, Some b) \<Rightarrow>
                        orElse error (checkDates h a b (timeEndStr @ '' should be earlier than '' @ timeBeforeStr))
                   | _ \<Rightarrow> error)
      in error)"

text \<open>The ten pairs of \<^verbatim>\<open>checkPhaseTimes\<close>, in its order.\<close>

definition PHASE_TIMES :: "string list" where
  "PHASE_TIMES =
     [''registrationStartTime'', ''registrationEndTime'', ''codingStartTime'', ''codingEndTime'',
      ''intermissionStartTime'', ''intermissionEndTime'', ''challengeStartTime'',
      ''challengeEndTime'', ''systestStartTime'', ''systestEndTime'']"

definition checkPhaseTimes :: "error option \<Rightarrow> params \<Rightarrow> helper \<Rightarrow> error option" where
  "checkPhaseTimes error ps h =
     foldl (\<lambda>error phase.
              validatePhaseTime error (ps (phase @ ''Before'')) (phase @ ''Before'')
                (ps (phase @ ''After'')) (phase @ ''After'') h)
       error PHASE_TIMES"

definition schedule_sortColumn :: "params \<Rightarrow> string" where
  "schedule_sortColumn ps = toLowerCase (orString (ps ''sortColumn'') ''registrationStartTime'')"

definition schedule_sortOrder :: "params \<Rightarrow> string" where
  "schedule_sortOrder ps =
     (let sortOrder = toLowerCase (orString (ps ''sortOrder'') ''asc'')
      in if \<not> isDefined (ps ''sortOrder'') \<and> schedule_sortColumn ps = ''registrationstarttime''
         then ''desc'' else sortOrder)"

definition schedule_item :: "obj \<Rightarrow> obj" where
  "schedule_item item = emptyObj
     (''roundId'' := item ''round_id'',
      ''name'' := item ''name'',
      ''shortName'' := (if item ''short_name'' \<noteq> Undefined then item ''short_name'' else String ''N/A''),
      ''contestName'' := item ''contest_name'',
      ''roundType'' := item ''round_type'',
      ''status'' := item ''status'',
      ''registrationStartTime'' := item ''registration_start_time'',
      ''registrationEndTime'' := item ''registration_end_time'',
      ''codingStartTime'' := item ''coding_start_time'',
      ''codingEndTime'' := item ''coding_end_time'',
      ''intermissionStartTime'' := item ''intermission_start_time'',
      ''intermissionEndTime'' := item ''intermission_end_time'',
      ''challengeStartTime'' := item ''challenge_start_time'',
      ''challengeEndTime'' := item ''challenge_end_time'',
      ''systestStartTime'' := item ''systest_start_time'',
      ''systestEndTime'' := item ''systest_end_time'')"

text \<open>
  The validation step of \<^verbatim>\<open>getSRMSchedule\<close>, in the order of the source: the checks
  of the paging and sorting parameters, the round statuses (with the default
  \<^verbatim>\<open>'f'\<close> written into the parameters), the round types, the phase times.  Each
  part takes the value of \<^verbatim>\<open>error\<close> so far and gives the value after it.
\<close>

definition schedule_paging :: "lib \<Rightarrow> helper \<Rightarrow> params \<Rightarrow> error option" where
  "schedule_paging l h ps =
     (let sortOrder = schedule_sortOrder ps;
          sortColumn = schedule_sortColumn ps;
          pageIndex = NumberOr l (ps ''pageIndex'') 1;
          pageSize = NumberOr l (ps ''pageSize'') DEFAULT_PAGE_SIZE;
          allowedSort = getLowerCaseList h ALLOWABLE_SCHEDULE_SORT_COLUMN;
          error = (if isDefined (ps ''pageIndex'') \<and> pageIndex \<noteq> Num (- 1)
                   then checkDefined h (ps ''pageSize'') ''pageSize'' else None)
      in orElse error
        (orElse (checkMaxNumber h pageIndex MAX_INT ''pageIndex'')
        (orElse (checkMaxNumber h pageSize MAX_INT ''pageSize'')
        (orElse (checkPageIndex h pageIndex ''pageIndex'')
        (orElse (checkPositiveInteger h pageSize ''pageSize'')
        (orElse (checkContains h [''asc'', ''desc''] sortOrder ''sortOrder'')
                (checkContains h allowedSort sortColumn ''sortColumn'')))))))"

definition schedule_statuses :: "helper \<Rightarrow> params \<Rightarrow> error option \<Rightarrow> error option" where
  "schedule_statuses h ps error =
     (case ps ''statuses'' of
        Some v \<Rightarrow> orElse error (checkSubset h (split CHR '','' v) VALID_ROUND_STATUS ''statuses'')
      | None \<Rightarrow> error)"

definition schedule_defaultStatuses :: "params \<Rightarrow> params" where
  "schedule_defaultStatuses ps =
     (case ps ''statuses'' of Some v \<Rightarrow> ps | None \<Rightarrow> ps(''statuses'' \<mapsto> ''f''))"

definition schedule_types :: "helper \<Rightarrow> params \<Rightarrow> error option \<Rightarrow> error option" where
  "schedule_types h ps error =
     (case ps ''types'' of
        Some v \<Rightarrow> orElse error (checkSubset h (split CHR '','' v) VALID_ROUND_TYPES ''types'')
      | None \<Rightarrow> error)"

definition schedule_validate :: "lib \<Rightarrow> helper \<Rightarrow> params \<Rightarrow> error option" where
  "schedule_validate l h ps =
     (let error = schedule_paging l h ps;
          error = schedule_statuses h ps error;
          ps' = schedule_defaultStatuses ps;
          error = schedule_types h ps' error
      in checkPhaseTimes error ps' h)"

definition schedule_sqlParams :: "lib \<Rightarrow> helper \<Rightarrow> params \<Rightarrow> obj" where
  "schedule_sqlParams l h ps =
     (let pageIndex = NumberOr l (ps ''pageIndex'') 1;
          pageSize = NumberOr l (ps ''pageSize'') DEFAULT_PAGE_SIZE;
          pageSize = sentinelPageSize pageIndex pageSize;
          pageIndex = sentinelPageIndex pageIndex
      in emptyObj
           (''firstRowIndex'' := Number (num_mul (num_sub pageIndex (Num 1)) pageSize),
            ''pageSize'' := Number pageSize,
            ''sortColumn'' := String (getSortColumnDBName h (schedule_sortColumn ps)),
            ''sortOrder'' := String (schedule_sortOrder ps)))"

text \<open>\<^verbatim>\<open>getSRMSchedule.run\<close>: the validation, the reading of the two query texts, the
  two queries with their filters, the envelope.\<close>

definition getSRMSchedule_run :: "lib \<Rightarrow> api \<Rightarrow> connection \<Rightarrow> envelope outcome" where
  "getSRMSchedule_run l api connection =
     (let h = helper api; ps = params connection in
      if \<not> dbConnectionMap connection then (Inl (handleNoConnection h), [])
      else
        (case schedule_validate l h ps of
           Some e \<Rightarrow> (Inl e, [])
         | None \<Rightarrow>
        (case parallel2 (readQuery h ''get_srm_schedule'') (readQuery h ''get_srm_schedule_count'') of
           Inl e \<Rightarrow> (Inl e, [])
         | Inr (q_data, q_count) \<Rightarrow>
       (let pageIndex = NumberOr l (ps ''pageIndex'') 1;
            pageSize = NumberOr l (ps ''pageSize'') DEFAULT_PAGE_SIZE;
            ps' = schedule_defaultStatuses ps;
            zone = databaseTimezoneIdentifier api;
            sqlParams = schedule_sqlParams l h ps;
            q_data = addScheduleFilter l zone q_data ps' h;
            q_count = addScheduleFilter l zone q_count ps' h;
            calls = [ExecuteSqlQuery q_data sqlParams, ExecuteSqlQuery q_count sqlParams]
        in (case parallel2 (executeSqlQuery api q_data sqlParams)
                           (executeSqlQuery api q_count sqlParams) of
              Inl e \<Rightarrow> (Inl e, calls)
            | Inr (rows, count) \<Rightarrow>
                (buildEnvelope schedule_item (NumberOf l (ps ''pageIndex''))
                   (sentinelPageIndex pageIndex) (sentinelPageSize pageIndex pageSize)
                   count rows, calls))))))"

section \<open>The practice problems\<close>

definition PROBLEM_ID_FILTER :: string where
  "PROBLEM_ID_FILTER = '' AND problem_id = @filter@'' @ [CHR 0x0A]"

definition PROBLEM_NAME_FILTER :: string where
  "PROBLEM_NAME_FILTER =
     '' AND LOWER(problem_name) LIKE LOWER('' @ [CHR 0x27] @ ''@filter@'' @ [CHR 0x27] @ '')'' @ [CHR 0x0A]"

definition PROBLEM_TYPE_FILTER :: string where
  "PROBLEM_TYPE_FILTER = '' AND LOWER(problem_type) IN (@filter@)'' @ [CHR 0x0A]"

definition DIFFICULTY_FILTER :: string where
  "DIFFICULTY_FILTER = '' AND LOWER(difficulty) IN (@filter@)'' @ [CHR 0x0A]"

definition POINTS_LOWER_BOUND_FILTER :: string where
  "POINTS_LOWER_BOUND_FILTER = '' AND points >= @filter@'' @ [CHR 0x0A]"

definition POINTS_UPPER_BOUND_FILTER :: string where
  "POINTS_UPPER_BOUND_FILTER = '' AND points <= @filter@'' @ [CHR 0x0A]"

definition STATUS_FILTER :: string where
  "STATUS_FILTER = '' AND LOWER(srp.status) IN (@filter@)'' @ [CHR 0x0A]"

definition MY_POINTS_UPPER_BOUND_FILTER :: string where
  "MY_POINTS_UPPER_BOUND_FILTER = ''AND srp.my_points <= @filter@'' @ [CHR 0x0A]"

definition MY_POINTS_LOWER_BOUND_FILTER :: string where
  "MY_POINTS_LOWER_BOUND_FILTER = '' AND srp.my_points >= @filter@'' @ [CHR 0x0A]"

definition VALID_PRACTICE_PROBLEMS_SORT_COLUMN :: "string list" where
  "VALID_PRACTICE_PROBLEMS_SORT_COLUMN =
     [''problemId'', ''problemName'', ''problemType'', ''difficulty'', ''points'', ''status'',
      ''myPoints'']"

definition VALID_PRACTICE_PROBLEMS_STATUS :: "string list" where
  "VALID_PRACTICE_PROBLEMS_STATUS = [''new'', ''viewed'', ''solved'']"

definition VALID_PRACTICE_PROBLEMS_DIFFICULTY :: "string list" where
  "VALID_PRACTICE_PROBLEMS_DIFFICULTY = [''easy'', ''medium'', ''hard'']"

definition VALID_PRACTICE_PROBLEMS_TYPE :: "string list" where
  "VALID_PRACTICE_PROBLEMS_TYPE = [''single'', ''team'', ''long'']"

text \<open>One clause of \<^verbatim>\<open>addFilter\<close>: applied when the parameter is there.\<close>

definition addClause ::
  "helper \<Rightarrow> string option \<Rightarrow> string \<Rightarrow> (string \<Rightarrow> string) \<Rightarrow> string \<Rightarrow> string" where
  "addClause h v template transform query =
     (case v of None \<Rightarrow> query | Some x \<Rightarrow> editSql h query template (transform x))"

definition addFilter :: "lib \<Rightarrow> string \<Rightarrow> params \<Rightarrow> helper \<Rightarrow> string" where
  "addFilter l query parameters h =
     (let num = (\<lambda>x. showNumber (NumberOf l (Some x)));
          query = addClause h (parameters ''problemId'') PROBLEM_ID_FILTER num query;
          query = addClause h (parameters ''problemName'') PROBLEM_NAME_FILTER
                    (\<lambda>x. ''%'' @ toLowerCase x @ ''%'') query;
          query = addClause h (parameters ''problemTypes'') PROBLEM_TYPE_FILTER quotedList query;
          query = addClause h (parameters ''difficulty'') DIFFICULTY_FILTER quotedList query;
          query = addClause h (parameters ''pointsLowerBound'') POINTS_LOWER_BOUND_FILTER num query;
          query = addClause h (parameters ''pointsUpperBound'') POINTS_UPPER_BOUND_FILTER num query;
          query = addClause h (parameters ''statuses'') STATUS_FILTER quotedList query;
          query = addClause h (parameters ''myPointsLowerBound'') MY_POINTS_LOWER_BOUND_FILTER num query;
          query = addClause h (parameters ''myPointsUpperBound'') MY_POINTS_UPPER_BOUND_FILTER num query
      in query)"

text \<open>A pair of bounds of \<^verbatim>\<open>getPracticeProblems\<close> (\<^verbatim>\<open>points\<close> or \<^verbatim>\<open>myPoints\<close>); the
  two pairs differ in the order of the first two checks and in the names.\<close>

definition practice_points :: "lib \<Rightarrow> helper \<Rightarrow> params \<Rightarrow> error option \<Rightarrow> error option" where
  "practice_points l h ps error =
     (if ps ''pointsLowerBound'' \<noteq> None \<or> ps ''pointsUpperBound'' \<noteq> None then
        let pointsLowerBound = NumberOr l (ps ''pointsLowerBound'') 0;
            pointsUpperBound = NumberOr l (ps ''pointsUpperBound'') (helper_MAX_INT h);
            error = orElse error
                   (orElse (checkMaxInt h pointsLowerBound ''pointsLowerBound'')
                   (orElse (checkNonNegativeInteger h pointsLowerBound ''pointsLowerBound'')
                   (orElse (checkPositiveInteger h pointsUpperBound ''pointsUpperBound'')
                           (checkMaxInt h pointsUpperBound ''pointsUpperBound''))))
        in if num_gt pointsLowerBound pointsUpperBound
           then orElse error (Some (IllegalArgumentError
                  ''The pointsLowerBound should less than pointsUpperBound or max value of integer.''))
           else error
      else error)"

definition practice_myPoints :: "lib \<Rightarrow> helper \<Rightarrow> params \<Rightarrow> error option \<Rightarrow> error option" where
  "practice_myPoints l h ps error =
     (if ps ''myPointsLowerBound'' \<noteq> None \<or> ps ''myPointsUpperBound'' \<noteq> None then
        let myPointsLowerBound = NumberOr l (ps ''myPointsLowerBound'') 0;
            myPointsUpperBound = NumberOr l (ps ''myPointsUpperBound'') (helper_MAX_INT h);
            error = orElse error
                   (orElse (checkNonNegativeInteger h myPointsLowerBound ''myPointsLowerBound'')
                   (orElse (checkMaxInt h myPointsLowerBound ''myPointsLowerBound'')
                   (orElse (checkPositiveInteger h myPointsUpperBound ''myPointsUpperBound'')
                           (checkMaxInt h myPointsUpperBound ''myPointsUpperBound''))))
        in if num_gt myPointsLowerBound myPointsUpperBound
           then orElse error (Some (IllegalArgumentError
                  ''The myPointsLowerBound should less than myPointsUpperBound or max value of integer.''))
           else error
      else error)"

text \<open>The validation step of \<^verbatim>\<open>getPracticeProblems\<close>, part by part in the order of
  the source; each part after the first takes the value of \<^verbatim>\<open>error\<close> so far.\<close>

definition practice_paging :: "lib \<Rightarrow> helper \<Rightarrow> connection \<Rightarrow> error option" where
  "practice_paging l h connection =
     (let ps = params connection;
          pageIndex = NumberOr l (ps ''pageIndex'') 1;
          pageSize = NumberOr l (ps ''pageSize'') 10;
          sortColumn = orString (ps ''sortColumn'') ''problemId'';
          sortOrder = orString (ps ''sortOrder'') (consts_ASCENDING h)
      in orElse (checkPageIndex h pageIndex ''pageIndex'')
        (orElse (checkPositiveInteger h pageSize ''pageSize'')
        (orElse (checkMaxInt h pageSize ''pageSize'')
        (orElse (checkContains h [''asc'', ''desc''] (toLowerCase sortOrder) ''sortOrder'')
        (orElse (checkSortColumn h VALID_PRACTICE_PROBLEMS_SORT_COLUMN (toLowerCase sortColumn))
                (checkMember h (caller connection)
                   ''Only logged in user can access to this endpoint.''))))))"

definition practice_statuses :: "helper \<Rightarrow> params \<Rightarrow> error option \<Rightarrow> error option" where
  "practice_statuses h ps error =
     (case ps ''statuses'' of
        Some v \<Rightarrow> orElse error
          (checkSubset h (split CHR '','' v) VALID_PRACTICE_PROBLEMS_STATUS ''statuses'')
      | None \<Rightarrow> error)"

definition practice_problemName :: "params \<Rightarrow> error option \<Rightarrow> error option" where
  "practice_problemName ps error =
     (case ps ''problemName'' of
        Some v \<Rightarrow> if length v > 32
                  then orElse error (Some (IllegalArgumentError
                         ''The problemName should less than 32 characters.''))
                  else error
      | None \<Rightarrow> error)"

definition practice_difficulty :: "helper \<Rightarrow> params \<Rightarrow> error option \<Rightarrow> error option" where
  "practice_difficulty h ps error =
     (case ps ''difficulty'' of
        Some v \<Rightarrow> orElse error
          (checkSubset h (split CHR '','' v) VALID_PRACTICE_PROBLEMS_DIFFICULTY ''difficulty'')
      | None \<Rightarrow> error)"

definition practice_problemTypes :: "helper \<Rightarrow> params \<Rightarrow> error option \<Rightarrow> error option" where
  "practice_problemTypes h ps error =
     (case ps ''problemTypes'' of
        Some v \<Rightarrow> orElse error
          (checkSubset h (split CHR '','' v) VALID_PRACTICE_PROBLEMS_TYPE ''problemTypes'')
      | None \<Rightarrow> error)"

definition practice_validate :: "lib \<Rightarrow> helper \<Rightarrow> connection \<Rightarrow> error option" where
  "practice_validate l h connection =
     (let ps = params connection;
          error = practice_paging l h connection;
          error = practice_statuses h ps error;
          error = practice_problemName ps error;
          error = practice_difficulty h ps error;
          error = practice_problemTypes h ps error;
          error = practice_points l h ps error
      in practice_myPoints l h ps error)"

definition practice_sqlParams :: "lib \<Rightarrow> helper \<Rightarrow> params \<Rightarrow> obj \<Rightarrow> obj" where
  "practice_sqlParams l h ps c =
     (let pageIndex = NumberOr l (ps ''pageIndex'') 1;
          pageSize = NumberOr l (ps ''pageSize'') 10;
          sortColumn = orString (ps ''sortColumn'') ''problemId'';
          sortOrder = orString (ps ''sortOrder'') (consts_ASCENDING h)
      in emptyObj
           (''firstRowIndex'' := Number (num_mul (num_sub pageIndex (Num 1)) pageSize),
            ''pageSize'' := Number pageSize,
            ''sortColumn'' := String (getSortColumnDBName h sortColumn),
            ''sortOrder'' := String (toLowerCase sortOrder),
            ''userId'' := c ''userId''))"

text \<open>\<^verbatim>\<open>getPracticeProblems\<close>, entered through the action's \<^verbatim>\<open>run\<close>, which checks the
  connection map first.  An anonymous caller that passes the validation has no
  \<^verbatim>\<open>userId\<close> to read; an empty count result has no \<^verbatim>\<open>total_count\<close> to read.\<close>

definition getPracticeProblems_run :: "lib \<Rightarrow> api \<Rightarrow> connection \<Rightarrow> envelope outcome" where
  "getPracticeProblems_run l api connection =
     (let h = helper api; ps = params connection in
      if \<not> dbConnectionMap connection then (Inl (handleNoConnection h), [])
      else
        (case practice_validate l h connection of
           Some e \<Rightarrow> (Inl e, [])
         | None \<Rightarrow>
        (case parallel2 (readQuery h ''get_practice_problems'')
                        (readQuery h ''get_practice_problems_count'') of
           Inl e \<Rightarrow> (Inl e, [])
         | Inr (q_data, q_count) \<Rightarrow>
        (case caller connection of
           None \<Rightarrow> (Inl (TypeError ''Cannot read property userId of undefined''), [])
         | Some c \<Rightarrow>
       (let sqlParams = practice_sqlParams l h ps c;
            q_data = addFilter l q_data ps h;
            q_count = addFilter l q_count ps h;
            calls = [ExecuteSqlQuery q_data sqlParams, ExecuteSqlQuery q_count sqlParams]
        in (case parallel2 (executeSqlQuery api q_data sqlParams)
                           (executeSqlQuery api q_count sqlParams) of
              Inl e \<Rightarrow> (Inl e, calls)
            | Inr (rows, count) \<Rightarrow>
                (case count of
                   [] \<Rightarrow> (Inl (TypeError ''Cannot read property total_count of undefined''), calls)
                 | c0 # rest \<Rightarrow>
                     (Inr \<lparr> total = c0 ''total_count'',
                            pageIndex = NumberOr l (ps ''pageIndex'') 1,
                            pageSize = Number (NumberOr l (ps ''pageSize'') 10),
                            data = transferDBResults2Response h rows \<rparr>, calls))))))))"

section \<open>The subset checks\<close>


section \<open>The embedded-quote check\<close>

abbreviation dquote :: char where
  "dquote \<equiv> CHR 0x22"

text \<open>\<^verbatim>\<open>checkExceedsLength(obj, length, name)\<close>; the limit is printed in the message.\<close>

definition checkExceedsLength :: "string \<Rightarrow> nat \<Rightarrow> string \<Rightarrow> error option" where
  "checkExceedsLength obj len name =
     (if length obj > len
      then Some (IllegalArgumentError
             (''Length of '' @ name @ '' must not exceed '' @ showNat len @ '' characters.''))
      else None)"

text \<open>
  The \<^verbatim>\<open>for\<close> loop of \<^verbatim>\<open>checkIllegalCharacters\<close>: the characters still to be
  read and the variable \<^verbatim>\<open>pre\<close>.  \<open>Inl\<close> is the \<^verbatim>\<open>return\<close> inside the loop,
  \<open>Inr\<close> the value of \<^verbatim>\<open>pre\<close> when the loop ends.
\<close>

fun quoteLoop :: "string \<Rightarrow> char option \<Rightarrow> string \<Rightarrow> error + char option" where
  "quoteLoop message pre [] = Inr pre"
| "quoteLoop message pre (c # cs) =
     (if pre = Some dquote then
        (if c = dquote then quoteLoop message None cs
         else Inl (IllegalArgumentError message))
      else if c = dquote then quoteLoop message (Some dquote) cs
      else quoteLoop message pre cs)"

definition checkIllegalCharacters :: "string \<Rightarrow> string \<Rightarrow> error option" where
  "checkIllegalCharacters obj name =
     (let pre = None;
          message = name @ '' contains unescaped quotes.''
      in if obj = [dquote] then Some (IllegalArgumentError message)
         else (case quoteLoop message pre obj of
                 Inl e \<Rightarrow> Some e
               | Inr pre' \<Rightarrow>
                   if pre' = Some dquote then Some (IllegalArgumentError message)
                   else None))"

text \<open>
  The words of the specification: a string is safe when every double quote in it is
  one half of an adjacent doubled pair, that is, when it is built from characters
  other than the double quote and from pairs of double quotes.
\<close>

inductive escaped :: "string \<Rightarrow> bool" where
  escaped_Nil: "escaped []"
| escaped_plain: "c \<noteq> dquote \<Longrightarrow> escaped s \<Longrightarrow> escaped (c # s)"
| escaped_pair: "escaped s \<Longrightarrow> escaped (dquote # dquote # s)"

code_pred escaped .

text \<open>
  The same in the other words of the specification: the string has no unescaped
  double quote.  A double quote acts as an escape when the double quotes right before
  it are odd in number (it is the second of a pair); a double quote that is not an
  escape is unescaped when no double quote follows it at once.
\<close>

definition quotesBefore :: "string \<Rightarrow> nat \<Rightarrow> nat" where
  "quotesBefore s i = length (takeWhile (\<lambda>c. c = dquote) (rev (take i s)))"

definition unescapedQuoteAt :: "string \<Rightarrow> nat \<Rightarrow> bool" where
  "unescapedQuoteAt s i =
     (i < length s \<and> s ! i = dquote \<and> even (quotesBefore s i)
      \<and> (Suc i < length s \<longrightarrow> s ! Suc i \<noteq> dquote))"

text \<open>And read from the left: a double quote must be followed by its pair.\<close>

fun wellEscaped :: "string \<Rightarrow> bool" where
  "wellEscaped [] = True"
| "wellEscaped (c # cs) =
     (if c \<noteq> dquote then wellEscaped cs
      else (case cs of [] \<Rightarrow> False | d # ds \<Rightarrow> d = dquote \<and> wellEscaped ds))"

section \<open>Validating the arguments of the write actions\<close>

text \<open>
  A validator task of \<^verbatim>\<open>async.auto\<close> ends with \<^verbatim>\<open>cb(error)\<close> (\<open>Inl\<close>) or with
  \<^verbatim>\<open>cb(null, value)\<close> (\<open>Inr\<close>).  Reading \<^verbatim>\<open>name.length\<close> of a name that is not
  there throws.
\<close>

definition validator_name :: "helper \<Rightarrow> params \<Rightarrow> error + jsval" where
  "validator_name h ps =
     (let name = ps ''name'' in
      case checkStringPopulated h name ''name'' of
        Some e \<Rightarrow> Inl e
      | None \<Rightarrow>
          (case name of
             None \<Rightarrow> Inl (TypeError ''Cannot read property length of undefined'')
           | Some n \<Rightarrow>
               (case orElse (checkExceedsLength n 50 ''name'') (checkIllegalCharacters n ''name'') of
                  Some e \<Rightarrow> Inl e
                | None \<Rightarrow> Inr (String n))))"

text \<open>The validators of \<^verbatim>\<open>adText\<close>, \<^verbatim>\<open>adTask\<close> and \<^verbatim>\<open>adCommand\<close> have one shape;
  they differ in the name and in the length allowed.\<close>

definition validator_nullableText :: "string \<Rightarrow> nat \<Rightarrow> helper \<Rightarrow> params \<Rightarrow> error + jsval" where
  "validator_nullableText field maxLength h ps =
     (case ps field of
        None \<Rightarrow> Inr Null
      | Some v \<Rightarrow>
          (case orElse (checkString h v field)
                 (orElse (checkExceedsLength v maxLength field) (checkIllegalCharacters v field)) of
             Some e \<Rightarrow> Inl e
           | None \<Rightarrow> Inr (String v)))"

definition validator_adText :: "helper \<Rightarrow> params \<Rightarrow> error + jsval" where
  "validator_adText = validator_nullableText ''adText'' 250"

definition validator_adTask :: "helper \<Rightarrow> params \<Rightarrow> error + jsval" where
  "validator_adTask = validator_nullableText ''adTask'' 30"

definition validator_adCommand :: "helper \<Rightarrow> params \<Rightarrow> error + jsval" where
  "validator_adCommand = validator_nullableText ''adCommand'' 30"

text \<open>The tasks \<^verbatim>\<open>eventName\<close> and \<^verbatim>\<open>registrationUrl\<close> of \<^verbatim>\<open>setRoundEvents\<close>, which
  end with \<^verbatim>\<open>cb(error, value)\<close>.\<close>

definition validator_eventText :: "string \<Rightarrow> int \<Rightarrow> helper \<Rightarrow> params \<Rightarrow> error + jsval" where
  "validator_eventText field maxLength h ps =
     (case ps field of
        None \<Rightarrow> Inr Null
      | Some v \<Rightarrow>
          (case orElse (checkStringPopulated h (Some v) field)
                 (orElse (checkMaxNumber h (Num (int (length v))) maxLength (''Length of '' @ field))
                         (checkIllegalCharacters v field)) of
             Some e \<Rightarrow> Inl e
           | None \<Rightarrow> Inr (String v)))"

definition validator_eventName :: "helper \<Rightarrow> params \<Rightarrow> error + jsval" where
  "validator_eventName = validator_eventText ''eventName'' 50"

definition validator_registrationUrl :: "helper \<Rightarrow> params \<Rightarrow> error + jsval" where
  "validator_registrationUrl = validator_eventText ''registrationUrl'' 255"

text \<open>The validators that apply \<^verbatim>\<open>checkIllegalCharacters\<close>, with the parameter each
  reads: those of the contest actions and those of \<^verbatim>\<open>setRoundEvents\<close>.\<close>

definition contestTextValidators :: "(string \<times> (helper \<Rightarrow> params \<Rightarrow> error + jsval)) list" where
  "contestTextValidators =
     [(''name'', validator_name), (''adText'', validator_adText),
      (''adTask'', validator_adTask), (''adCommand'', validator_adCommand)]"

definition eventTextValidators :: "(string \<times> (helper \<Rightarrow> params \<Rightarrow> error + jsval)) list" where
  "eventTextValidators =
     [(''eventName'', validator_eventName), (''registrationUrl'', validator_registrationUrl)]"

text \<open>String concatenation with a validated value.\<close>

definition toText :: "jsval \<Rightarrow> string" where
  "toText v = (case v of String t \<Rightarrow> t | Number n \<Rightarrow> showNumber n
               | Null \<Rightarrow> ''null'' | Undefined \<Rightarrow> ''undefined'')"

text \<open>\<^verbatim>\<open>sqlParams(params, escape, date)\<close>, applied to the results of the validators: the
  composition of the parameters of the write query.  The last task of
  \<^verbatim>\<open>validateAndPrepareSRMContestApiArguments\<close> is the same reduction, with the two
  tables below.\<close>

definition sqlParams :: "string list \<Rightarrow> (string \<Rightarrow> bool) \<Rightarrow> (string \<Rightarrow> bool) \<Rightarrow> obj \<Rightarrow> obj" where
  "sqlParams ps escape date results =
     foldl (\<lambda>memo item.
              if results item = Null \<or> results item = Undefined then memo(item := String ''NULL'')
              else if escape item
                   then memo(item := String ([dquote] @ toText (results item) @
                                              (if date item then '':00'' else []) @ [dquote]))
                   else memo(item := results item))
       emptyObj ps"

definition contest_escape :: "string \<Rightarrow> bool" where
  "contest_escape item =
     (item \<in> set [''name'', ''status'', ''adText'', ''adTask'', ''adCommand'', ''startDate'',
                  ''endDate'', ''adStart'', ''adEnd''])"

definition contest_date :: "string \<Rightarrow> bool" where
  "contest_date item = (item \<in> set [''startDate'', ''endDate'', ''adStart'', ''adEnd''])"

text \<open>
  A task of \<^verbatim>\<open>async.auto\<close> that names other tasks runs once each of them has passed
  a result, with these results; when one of them has passed an error it never runs,
  and the error ends the whole \<^verbatim>\<open>auto\<close>.  \<open>outcome\<close> gives what each named task
  passed.  (Which of several errors is reported depends on the scheduling; the model
  takes the first in the order of the names.)
\<close>

definition autoTask :: "string list \<Rightarrow> (string \<Rightarrow> error + jsval) \<Rightarrow> (obj \<Rightarrow> 'a) \<Rightarrow> error + 'a" where
  "autoTask requires outcome task =
     (case filter isl (map outcome requires) of
        x # _ \<Rightarrow> Inl (projl x)
      | [] \<Rightarrow> Inr (task (\<lambda>k. case outcome k of Inr v \<Rightarrow> v | Inl _ \<Rightarrow> Undefined)))"

text \<open>The task \<^verbatim>\<open>sqlParams\<close> of \<^verbatim>\<open>validateAndPrepareSRMContestApiArguments(args, ...)\<close>
  and of \<^verbatim>\<open>setRoundEvents\<close>.\<close>

definition contest_sqlParams :: "string list \<Rightarrow> (string \<Rightarrow> error + jsval) \<Rightarrow> error + obj" where
  "contest_sqlParams args outcome = autoTask args outcome (sqlParams args contest_escape contest_date)"

definition events_sqlParams :: "(string \<Rightarrow> error + jsval) \<Rightarrow> error + obj" where
  "events_sqlParams outcome =
     (let sqlparams = [''roundId'', ''eventId'', ''eventName'', ''registrationUrl'']
      in autoTask sqlparams outcome
           (sqlParams sqlparams (\<lambda>item. item \<in> set [''eventName'', ''registrationUrl''])
              (\<lambda>item. False)))"

section \<open>Updating an SRM contest\<close>

definition NON_ADMIN_MESSAGE :: string where
  "NON_ADMIN_MESSAGE = ''Admin access only.''"

definition UNAUTHORIZED_MESSAGE :: string where
  "UNAUTHORIZED_MESSAGE = ''Authorized access only.''"

text \<open>\<^verbatim>\<open>a !== b\<close>.\<close>

definition strictNeq :: "jsval \<Rightarrow> jsval \<Rightarrow> bool" where
  "strictNeq a b = (a \<noteq> b \<or> a = Number NaN)"

text \<open>What the task \<^verbatim>\<open>validate\<close> passes on: the validated \<^verbatim>\<open>id\<close> and
  \<^verbatim>\<open>contestId\<close> and the composed \<^verbatim>\<open>sqlParams\<close>.\<close>

record validated =
  validate_id :: jsval
  validate_contestId :: jsval
  validate_sqlParams :: obj

text \<open>\<^verbatim>\<open>async.series\<close> over calls of \<^verbatim>\<open>executeQuery\<close>: one after the other, the
  first error ends the series.\<close>

fun series :: "api \<Rightarrow> (string \<times> obj) list \<Rightarrow> (error + obj list list) \<times> call list" where
  "series a [] = (Inr [], [])"
| "series a ((name, ps) # rest) =
     (case executeQuery a name ps of
        Inl e \<Rightarrow> (Inl e, [ExecuteQuery name ps])
      | Inr rows \<Rightarrow>
          (case series a rest of
             (Inl e, calls) \<Rightarrow> (Inl e, ExecuteQuery name ps # calls)
           | (Inr rs, calls) \<Rightarrow> (Inr (rows # rs), ExecuteQuery name ps # calls)))"

text \<open>The task \<^verbatim>\<open>updateContestId\<close>.  Its result is the array of the four results, or
  \<^verbatim>\<open>undefined\<close> (\<open>None\<close>) when the identifier does not change.\<close>

definition updateContestId :: "api \<Rightarrow> validated \<Rightarrow> (error + obj list list option) \<times> call list" where
  "updateContestId a v =
     (let id' = validate_id v; contestId = validate_contestId v in
      if strictNeq id' contestId then
        (case series a
                [(''insert_srm_contest'', validate_sqlParams v),
                 (''update_srm_contest'', validate_sqlParams v),
                 (''update_srm_contest_id'', emptyObj(''contestId'' := contestId, ''id'' := id')),
                 (''delete_srm_contest'', emptyObj(''id'' := id'))] of
           (Inl e, calls) \<Rightarrow> (Inl e, calls)
         | (Inr rs, calls) \<Rightarrow> (Inr (Some rs), calls))
      else (Inr None, []))"

text \<open>The task \<^verbatim>\<open>updateContest\<close>: an array is truthy, \<^verbatim>\<open>undefined\<close> is not.\<close>

definition updateContest :: "api \<Rightarrow> validated \<Rightarrow> obj list list option \<Rightarrow> (error + unit) \<times> call list" where
  "updateContest a v updateContestIdResult =
     (case updateContestIdResult of
        None \<Rightarrow>
          (case executeQuery a ''update_srm_contest'' (validate_sqlParams v) of
             Inl e \<Rightarrow> (Inl e, [ExecuteQuery ''update_srm_contest'' (validate_sqlParams v)])
           | Inr rows \<Rightarrow> (Inr (), [ExecuteQuery ''update_srm_contest'' (validate_sqlParams v)]))
      | Some rs \<Rightarrow> (Inr (), []))"

text \<open>The response \<^verbatim>\<open>{success: true}\<close>.\<close>

datatype written = Success

text \<open>
  \<^verbatim>\<open>updateSRMContest\<close>: the tasks \<^verbatim>\<open>admin\<close>, \<^verbatim>\<open>validate\<close>, \<^verbatim>\<open>updateContestId\<close> and
  \<^verbatim>\<open>updateContest\<close>, each after the one before.  The validators of the task
  \<^verbatim>\<open>validate\<close> run side by side and some of them read the database; what the task
  passes on, and the calls it made, are the parameter \<open>validate\<close>.
\<close>

definition updateSRMContest_run :: "api \<Rightarrow> connection \<Rightarrow> validated outcome \<Rightarrow> written outcome" where
  "updateSRMContest_run a connection validate =
     (case checkAdmin (helper a) (caller connection) UNAUTHORIZED_MESSAGE NON_ADMIN_MESSAGE of
        Some e \<Rightarrow> (Inl e, [])
      | None \<Rightarrow>
          (case validate of
             (Inl e, calls0) \<Rightarrow> (Inl e, calls0)
           | (Inr v, calls0) \<Rightarrow>
               (case updateContestId a v of
                  (Inl e, calls1) \<Rightarrow> (Inl e, calls0 @ calls1)
                | (Inr r, calls1) \<Rightarrow>
                    (case updateContest a v r of
                       (Inl e, calls2) \<Rightarrow> (Inl e, calls0 @ calls1 @ calls2)
                     | (Inr u, calls2) \<Rightarrow> (Inr Success, calls0 @ calls1 @ calls2)))))"

section \<open>The helper as the specification describes it\<close>

text \<open>
  Modelled from the spec: the validators of \<^verbatim>\<open>api.helper\<close>, whose source file is not
  among the sources of the actions.  The specification (Validator Registry, Error
  handling) gives for each validator the condition it checks, and says that a failure
  is an invalid-argument error that names the field; the wording of the messages is
  the model's.  \<open>parse\<close> reads a date in the wire format as a point in time, \<open>None\<close>
  for a text that is not a date in this format.
\<close>

definition spec_checkDefined :: "string option \<Rightarrow> string \<Rightarrow> error option" where
  \<comment> \<open>Modelled from the spec: a field with no raw value fails as required.\<close>
  "spec_checkDefined v name =
     (if v = None then Some (IllegalArgumentError (name @ '' should not be null or undefined''))
      else None)"

definition spec_checkMaxNumber :: "number \<Rightarrow> int \<Rightarrow> string \<Rightarrow> error option" where
  \<comment> \<open>Modelled from the spec: an integer must be at most a configured maximum.\<close>
  "spec_checkMaxNumber n mx name =
     (case n of
        Num i \<Rightarrow> if i > mx
                 then Some (IllegalArgumentError (name @ '' should be less or equal to '' @ showInt mx))
                 else None
      | NaN \<Rightarrow> None)"

definition spec_checkPositiveInteger :: "number \<Rightarrow> string \<Rightarrow> error option" where
  \<comment> \<open>Modelled from the spec: the positivity check.\<close>
  "spec_checkPositiveInteger n name =
     (case n of
        Num i \<Rightarrow> if i > 0 then None else Some (IllegalArgumentError (name @ '' should be positive''))
      | NaN \<Rightarrow> Some (IllegalArgumentError (name @ '' should be an integer'')))"

definition spec_checkNonNegativeInteger :: "number \<Rightarrow> string \<Rightarrow> error option" where
  \<comment> \<open>Modelled from the spec: the non-negativity check.\<close>
  "spec_checkNonNegativeInteger n name =
     (case n of
        Num i \<Rightarrow> if i \<ge> 0 then None else Some (IllegalArgumentError (name @ '' should be non-negative''))
      | NaN \<Rightarrow> Some (IllegalArgumentError (name @ '' should be an integer'')))"

definition spec_checkPageIndex :: "number \<Rightarrow> string \<Rightarrow> error option" where
  \<comment> \<open>Modelled from the spec: a page index is 1-based, or the sentinel -1.\<close>
  "spec_checkPageIndex n name =
     (case n of
        Num i \<Rightarrow> if i = - 1 \<or> i > 0 then None
                 else Some (IllegalArgumentError (name @ '' should be equal to -1 or greater than 0''))
      | NaN \<Rightarrow> Some (IllegalArgumentError (name @ '' should be an integer'')))"

definition spec_checkContains :: "string list \<Rightarrow> string \<Rightarrow> string \<Rightarrow> error option" where
  \<comment> \<open>Modelled from the spec: membership in an allow-list, by exact match.\<close>
  "spec_checkContains allowed v name =
     (if v \<in> set allowed then None
      else Some (IllegalArgumentError (name @ '' should be an element of '' @ join '','' allowed)))"

definition spec_checkSubset :: "string list \<Rightarrow> string list \<Rightarrow> string \<Rightarrow> error option" where
  \<comment> \<open>Modelled from the spec: every element must be in the allow-list; the error names
      the first element that is not, and the field.\<close>
  "spec_checkSubset elements allowed name =
     (case filter (\<lambda>x. x \<notin> set allowed) elements of
        [] \<Rightarrow> None
      | x # _ \<Rightarrow> Some (IllegalArgumentError
                   (name @ '' has the unknown element '' @ x @ '', it should be a subset of '' @
                    join '','' allowed)))"

definition spec_validateDate :: "(string \<Rightarrow> int option) \<Rightarrow> string \<Rightarrow> string \<Rightarrow> string \<Rightarrow> error option" where
  \<comment> \<open>Modelled from the spec: the value must parse under the format; the error names the
      field and the format.\<close>
  "spec_validateDate parse v name format =
     (case parse v of
        None \<Rightarrow> Some (IllegalArgumentError (name @ '' is not a valid date, the format is '' @ format))
      | Some t \<Rightarrow> None)"

definition spec_checkDates :: "(string \<Rightarrow> int option) \<Rightarrow> string \<Rightarrow> string \<Rightarrow> string \<Rightarrow> error option" where
  \<comment> \<open>Modelled from the spec: \<^verbatim>\<open>checkDates(first, second, message)\<close> fails with the message
      when the first date is later than the second, as the testable property on the
      registration start times says and as the message built at the call says
      (the first should be earlier than the second).\<close>
  "spec_checkDates parse first second message =
     (case (parse first, parse second) of
        (Some t1, Some t2) \<Rightarrow> if t1 > t2 then Some (IllegalArgumentError message) else None
      | _ \<Rightarrow> None)"

definition spec_checkStringPopulated :: "string option \<Rightarrow> string \<Rightarrow> error option" where
  \<comment> \<open>Modelled from the spec: the string must be there and not be empty.\<close>
  "spec_checkStringPopulated v name =
     (case v of
        None \<Rightarrow> Some (IllegalArgumentError (name @ '' should be defined''))
      | Some t \<Rightarrow> if trim t = [] then Some (IllegalArgumentError (name @ '' should be non-null and non-empty string''))
                  else None)"

definition spec_checkSortColumn :: "string list \<Rightarrow> string \<Rightarrow> error option" where
  \<comment> \<open>Modelled from the spec: a sort column outside the allow-list (ignoring case) is
      rejected with an error that names \<^verbatim>\<open>sortColumn\<close>.\<close>
  "spec_checkSortColumn allowed column =
     (if column \<in> set (map toLowerCase allowed) then None
      else Some (IllegalArgumentError (''The sortColumn '' @ column @ '' is invalid'')))"

definition spec_checkMember :: "obj option \<Rightarrow> string \<Rightarrow> error option" where
  \<comment> \<open>Modelled from the spec: an endpoint for logged-in callers answers an anonymous one
      with the unauthenticated error.\<close>
  "spec_checkMember c message = (case c of None \<Rightarrow> Some (UnauthorizedError message) | Some u \<Rightarrow> None)"

definition spec_checkAdmin :: "obj option \<Rightarrow> string \<Rightarrow> string \<Rightarrow> error option" where
  \<comment> \<open>Modelled from the spec: an anonymous caller is unauthenticated, a caller without the
      role is forbidden.\<close>
  "spec_checkAdmin c unauthorized forbidden =
     (case c of
        None \<Rightarrow> Some (UnauthorizedError unauthorized)
      | Some u \<Rightarrow> if u ''accessLevel'' = String ''admin'' then None
                  else Some (ForbiddenError forbidden))"

text \<open>Splicing a value into the marker of a filter template, and adding the clause to
  the query.\<close>

fun spliceMarker :: "string \<Rightarrow> string \<Rightarrow> string \<Rightarrow> string" where
  "spliceMarker marker content [] = []"
| "spliceMarker marker content (c # cs) =
     (if prefix marker (c # cs) then content @ drop (length marker) (c # cs)
      else c # spliceMarker marker content cs)"

definition spec_editSql :: "string \<Rightarrow> string \<Rightarrow> string \<Rightarrow> string" where
  \<comment> \<open>Modelled from the spec: the value is spliced into the one marker of the clause.\<close>
  "spec_editSql query template content = query @ spliceMarker ''@filter@'' content template"

text \<open>The helper object made of these.  The text of a query file is not modelled: the
  name of the query stands for it; the storage name of a sort column is taken to be
  the column itself.\<close>

definition specHelper :: "(string \<Rightarrow> int option) \<Rightarrow> helper" where
  "specHelper parse =
     \<lparr> handleNoConnection = OtherError ''No connection object.'',
       checkDefined = spec_checkDefined,
       checkMaxNumber = spec_checkMaxNumber,
       checkPageIndex = spec_checkPageIndex,
       checkPositiveInteger = spec_checkPositiveInteger,
       checkContains = spec_checkContains,
       checkArgument = (\<lambda>expression message.
                          if expression then None else Some (IllegalArgumentError message)),
       checkSubset = spec_checkSubset,
       validateDate = spec_validateDate parse,
       checkDates = spec_checkDates parse,
       getLowerCaseList = map toLowerCase,
       getSortColumnDBName = (\<lambda>column. column),
       ListType_ACTIVE = ''ACTIVE'',
       ListType_UPCOMING = ''UPCOMING'',
       editSql = spec_editSql,
       readQuery = (\<lambda>name. Inr name),
       checkMaxInt = (\<lambda>n name. spec_checkMaxNumber n MAX_INT name),
       checkNonNegativeInteger = spec_checkNonNegativeInteger,
       checkSortColumn = spec_checkSortColumn,
       checkMember = spec_checkMember,
       consts_ASCENDING = ''asc'',
       helper_MAX_INT = MAX_INT,
       transferDBResults2Response = (\<lambda>rows. rows),
       checkStringPopulated = spec_checkStringPopulated,
       checkString = (\<lambda>v name. None),
       checkAdmin = spec_checkAdmin \<rparr>"

section \<open>Example requests\<close>

text \<open>A conversion of plain decimal integer literals, for the examples: an optional
  minus sign and digits, rounded to a double.  The examples use no other text; it is
  given \<open>NaN\<close>.\<close>

definition digitVal :: "char \<Rightarrow> int option" where
  "digitVal c = (let n = (of_char c :: int) in if 48 \<le> n \<and> n \<le> 57 then Some (n - 48) else None)"

fun parseDigits :: "int \<Rightarrow> string \<Rightarrow> int option" where
  "parseDigits acc [] = Some acc"
| "parseDigits acc (c # cs) =
     (case digitVal c of None \<Rightarrow> None | Some d \<Rightarrow> parseDigits (10 * acc + d) cs)"

definition decimalNumber :: "string \<Rightarrow> number" where
  "decimalNumber s =
     (case s of
        [] \<Rightarrow> Num 0
      | c # cs \<Rightarrow>
          if c = CHR ''-'' then
            (if cs = [] then NaN
             else (case parseDigits 0 cs of None \<Rightarrow> NaN | Some n \<Rightarrow> Num (roundDouble (- n))))
          else (case parseDigits 0 s of None \<Rightarrow> NaN | Some n \<Rightarrow> Num (roundDouble n)))"

definition exampleLib :: lib where
  "exampleLib = \<lparr> toNumber = decimalNumber, momentFormat = (\<lambda>v zone format. v) \<rparr>"

text \<open>The two dates of the specification's scenario, as milliseconds since the epoch.\<close>

definition exampleDates :: "string \<Rightarrow> int option" where
  "exampleDates s =
     (if s = ''2020-01-01T00:00:00.000+0000'' then Some 1577836800000
      else if s = ''2020-02-01T00:00:00.000+0000'' then Some 1580515200000
      else None)"

text \<open>A store that answers every data query with \<open>rows\<close> and every count query with
  the one row \<open>total_count = n\<close>; the four write queries of the contest update answer
  with no rows.\<close>

definition isCountQuery :: "string \<Rightarrow> bool" where
  "isCountQuery q =
     (q = ''get_srm_challenges_count'' \<or> prefix ''get_srm_schedule_count'' q
      \<or> prefix ''get_practice_problems_count'' q)"

definition exampleApi :: "obj list \<Rightarrow> int \<Rightarrow> api" where
  "exampleApi rows n =
     \<lparr> helper = specHelper exampleDates,
       executeQuery = (\<lambda>name ps. if isCountQuery name
                                  then Inr [emptyObj(''total_count'' := Number (Num n))]
                                  else Inr rows),
       executeSqlQuery = (\<lambda>q ps. if isCountQuery q
                                 then Inr [emptyObj(''total_count'' := Number (Num n))]
                                 else Inr rows),
       databaseTimezoneIdentifier = ''-0500'' \<rparr>"

definition exampleCaller :: "obj option" where
  "exampleCaller = Some (emptyObj(''userId'' := Number (Num 132456), ''accessLevel'' := String ''admin''))"

definition exampleConnection :: "params \<Rightarrow> connection" where
  "exampleConnection ps = \<lparr> params = ps, dbConnectionMap = True, caller = exampleCaller \<rparr>"

section \<open>Properties of the embedded-quote check\<close>

lemma orElse_simps [simp]:
  "orElse None b = b" "orElse (Some e) b = Some e"
  by (simp_all add: orElse_def)

lemma orElse_eq_None: "(orElse a b = None) = (a = None \<and> b = None)"
  by (cases a) simp_all

lemma escaped_imp_wellEscaped: "escaped s \<Longrightarrow> wellEscaped s"
  by (induction rule: escaped.induct) auto

lemma wellEscaped_imp_escaped: "wellEscaped s \<Longrightarrow> escaped s"
proof (induction s rule: wellEscaped.induct)
  case 1
  show ?case by (rule escaped_Nil)
next
  case (2 c cs)
  show ?case
  proof (cases "c = dquote")
    case False
    with 2 show ?thesis by (auto intro: escaped_plain)
  next
    case True
    with 2(3) obtain ds where cs: "cs = dquote # ds" and w: "wellEscaped ds"
      by (auto split: list.splits)
    from 2(2) True cs w have "escaped ds" by simp
    with True cs show ?thesis by (auto intro: escaped_pair)
  qed
qed

lemma escaped_iff_wellEscaped: "escaped s = wellEscaped s"
  using escaped_imp_wellEscaped wellEscaped_imp_escaped by blast

text \<open>The loop ends with nothing pending exactly on the well-escaped strings.\<close>

lemma quoteLoop_None: "(quoteLoop m None s = Inr None) = wellEscaped s"
proof (induction s rule: wellEscaped.induct)
  case 1
  show ?case by simp
next
  case (2 c cs)
  show ?case
  proof (cases "c = dquote")
    case False
    with 2 show ?thesis by simp
  next
    case True
    show ?thesis
    proof (cases cs)
      case Nil
      with True show ?thesis by simp
    next
      case (Cons d ds)
      with True 2(2) show ?thesis by (cases "d = dquote") auto
    qed
  qed
qed

lemma quoteLoop_error: "quoteLoop m pre s = Inl e \<Longrightarrow> e = IllegalArgumentError m"
  by (induction m pre s rule: quoteLoop.induct) (auto split: if_splits)

lemma quoteLoop_pre:
  "quoteLoop m pre s = Inr p \<Longrightarrow> pre = None \<or> pre = Some dquote \<Longrightarrow> p = None \<or> p = Some dquote"
  by (induction m pre s arbitrary: p rule: quoteLoop.induct) (auto split: if_splits)

lemma checkIllegalCharacters_None: "(checkIllegalCharacters obj name = None) = escaped obj"
proof -
  let ?m = "name @ '' contains unescaped quotes.''"
  have "(quoteLoop ?m None obj = Inr None) = wellEscaped obj" by (rule quoteLoop_None)
  moreover have "\<not> wellEscaped [dquote]" by simp
  moreover have "\<And>p. quoteLoop ?m None obj = Inr p \<Longrightarrow> p = None \<or> p = Some dquote"
    using quoteLoop_pre by blast
  ultimately show ?thesis
    unfolding checkIllegalCharacters_def escaped_iff_wellEscaped
    by (auto simp: Let_def split: sum.splits)
qed

lemma checkIllegalCharacters_Some:
  "checkIllegalCharacters obj name = Some e \<Longrightarrow>
     e = IllegalArgumentError (name @ '' contains unescaped quotes.'')"
  unfolding checkIllegalCharacters_def
  by (auto simp: Let_def split: sum.splits if_splits dest: quoteLoop_error)

lemma checkIllegalCharacters_rejects:
  "\<not> escaped obj \<Longrightarrow>
     checkIllegalCharacters obj name = Some (IllegalArgumentError (name @ '' contains unescaped quotes.''))"
  using checkIllegalCharacters_None [of obj name] checkIllegalCharacters_Some [of obj name]
  by (cases "checkIllegalCharacters obj name") auto

lemma not_escaped_single: "\<not> escaped [dquote]"
  by (simp add: escaped_iff_wellEscaped)

lemma wellEscaped_append_quote: "wellEscaped s \<Longrightarrow> \<not> wellEscaped (s @ [dquote])"
  by (induction s rule: wellEscaped.induct) (auto split: list.splits if_splits)

lemma not_escaped_trailing: "escaped s \<Longrightarrow> \<not> escaped (s @ [dquote])"
  by (simp add: escaped_iff_wellEscaped wellEscaped_append_quote)

text \<open>The two readings of the specification agree.\<close>

lemma quotesBefore_0 [simp]: "quotesBefore s 0 = 0"
  by (simp add: quotesBefore_def)

lemma quotesBefore_Cons:
  "quotesBefore (x # s) (Suc i) =
     (if (\<forall>y \<in> set (take i s). y = dquote) \<and> x = dquote
      then Suc (quotesBefore s i) else quotesBefore s i)"
proof (cases "\<forall>y \<in> set (take i s). y = dquote")
  case True
  then have a: "takeWhile (\<lambda>c. c = dquote) (rev (take i s) @ [x])
               = rev (take i s) @ takeWhile (\<lambda>c. c = dquote) [x]"
    by (intro takeWhile_append2) simp
  from True have b: "takeWhile (\<lambda>c. c = dquote) (rev (take i s)) = rev (take i s)"
    by simp
  have "quotesBefore (x # s) (Suc i) = length (rev (take i s) @ takeWhile (\<lambda>c. c = dquote) [x])"
    unfolding quotesBefore_def take_Suc_Cons rev.simps a ..
  moreover have "quotesBefore s i = length (rev (take i s))"
    unfolding quotesBefore_def b ..
  ultimately show ?thesis using True by simp
next
  case False
  then obtain y where "y \<in> set (rev (take i s))" "\<not> y = dquote" by auto
  then have "takeWhile (\<lambda>c. c = dquote) (rev (take i s) @ [x])
               = takeWhile (\<lambda>c. c = dquote) (rev (take i s))"
    by (rule takeWhile_append1)
  with False show ?thesis by (simp add: quotesBefore_def)
qed

lemma unescapedQuoteAt_Cons:
  "x \<noteq> dquote \<Longrightarrow> unescapedQuoteAt (x # s) (Suc i) = unescapedQuoteAt s i"
  "x \<noteq> dquote \<Longrightarrow> \<not> unescapedQuoteAt (x # s) 0"
  by (simp_all add: unescapedQuoteAt_def quotesBefore_Cons)

lemma unescapedQuoteAt_pair:
  "unescapedQuoteAt (dquote # dquote # s) (Suc (Suc i)) = unescapedQuoteAt s i"
  "\<not> unescapedQuoteAt (dquote # dquote # s) (Suc 0)"
  "\<not> unescapedQuoteAt (dquote # dquote # s) 0"
  by (simp_all add: unescapedQuoteAt_def quotesBefore_Cons)

lemma unescapedQuoteAt_lone:
  "unescapedQuoteAt [dquote] 0"
  "d \<noteq> dquote \<Longrightarrow> unescapedQuoteAt (dquote # d # s) 0"
  by (simp_all add: unescapedQuoteAt_def)

lemma ex_nat_cases: "(\<exists>i. P i) = (P 0 \<or> (\<exists>i. P (Suc i)))"
  by (metis not0_implies_Suc)

lemma ex_nat_cases2: "(\<exists>i. P i) = (P 0 \<or> P (Suc 0) \<or> (\<exists>i. P (Suc (Suc i))))"
  by (metis not0_implies_Suc)

lemma wellEscaped_iff_no_unescaped: "wellEscaped s = (\<nexists>i. unescapedQuoteAt s i)"
proof (induction s rule: wellEscaped.induct)
  case 1
  show ?case by (simp add: unescapedQuoteAt_def)
next
  case (2 c cs)
  show ?case
  proof (cases "c = dquote")
    case False
    with 2(1) show ?thesis
      by (subst ex_nat_cases) (simp add: unescapedQuoteAt_Cons)
  next
    case True
    show ?thesis
    proof (cases cs)
      case Nil
      with True show ?thesis using unescapedQuoteAt_lone(1) by auto
    next
      case (Cons d ds)
      show ?thesis
      proof (cases "d = dquote")
        case False
        with True Cons show ?thesis using unescapedQuoteAt_lone(2) [of d ds] by auto
      next
        case d: True
        have "(\<exists>i. unescapedQuoteAt (dquote # dquote # ds) i) = (\<exists>i. unescapedQuoteAt ds i)"
          by (subst ex_nat_cases2) (simp add: unescapedQuoteAt_pair)
        with 2(2) True Cons d show ?thesis by simp
      qed
    qed
  qed
qed

lemma not_escaped_iff_unescaped_quote: "(\<not> escaped s) = (\<exists>i. unescapedQuoteAt s i)"
  by (simp add: escaped_iff_wellEscaped wellEscaped_iff_no_unescaped)

lemma validator_name_rejects:
  "ps ''name'' = Some obj \<Longrightarrow> \<not> escaped obj \<Longrightarrow> isl (validator_name h ps)"
  by (simp add: validator_name_def checkIllegalCharacters_rejects orElse_eq_None Let_def
        split: option.splits)

lemma validator_nullableText_rejects:
  "ps field = Some obj \<Longrightarrow> \<not> escaped obj \<Longrightarrow> isl (validator_nullableText field n h ps)"
  by (simp add: validator_nullableText_def checkIllegalCharacters_rejects orElse_eq_None
        split: option.splits)

lemma validator_eventText_rejects:
  "ps field = Some obj \<Longrightarrow> \<not> escaped obj \<Longrightarrow> isl (validator_eventText field n h ps)"
  by (simp add: validator_eventText_def checkIllegalCharacters_rejects orElse_eq_None
        split: option.splits)

lemma textValidators_reject:
  assumes "(field, validator) \<in> set contestTextValidators \<union> set eventTextValidators"
      and "ps field = Some obj" and "\<not> escaped obj"
  shows "isl (validator h ps)"
  using assms
  by (auto simp: contestTextValidators_def eventTextValidators_def validator_adText_def
        validator_adTask_def validator_adCommand_def validator_eventName_def
        validator_registrationUrl_def
        intro: validator_name_rejects validator_nullableText_rejects validator_eventText_rejects)

text \<open>A task that names a failed task does not run.\<close>

lemma autoTask_error:
  assumes "field \<in> set requires" and "isl (outcome field)"
  shows "isl (autoTask requires outcome task)"
proof -
  from assms have "outcome field \<in> set (filter isl (map outcome requires))" by simp
  then have "filter isl (map outcome requires) \<noteq> []" by (metis empty_iff empty_set)
  then show ?thesis by (simp add: autoTask_def split: list.splits)
qed

text \<open>
  C1.  \<^verbatim>\<open>checkIllegalCharacters\<close> answers \<^verbatim>\<open>null\<close> exactly on the strings in which every
  double quote is one half of an adjacent doubled pair, and answers the
  invalid-argument error "contains unescaped quotes" on every other string, that is,
  on the strings with a double quote that is not an escape and is not followed at
  once by a double quote, among them
  the string that is one double quote and every well-escaped string followed by one
  more double quote.  Each of the validators of \<^verbatim>\<open>name\<close>, \<^verbatim>\<open>adText\<close>, \<^verbatim>\<open>adTask\<close>,
  \<^verbatim>\<open>adCommand\<close>, \<^verbatim>\<open>eventName\<close> and \<^verbatim>\<open>registrationUrl\<close> ends with an error on a value
  the check rejects, and then the task that composes the parameters of the write
  query, which names the validator, does not run.
\<close>

theorem checkIllegalCharacters_rejects_unescaped_quotes:
  "((checkIllegalCharacters obj name = None) = escaped obj)
   \<and> (\<not> escaped obj \<longrightarrow>
        checkIllegalCharacters obj name =
          Some (IllegalArgumentError (name @ '' contains unescaped quotes.'')))
   \<and> ((\<not> escaped obj) = (\<exists>i. unescapedQuoteAt obj i))
   \<and> \<not> escaped [dquote]
   \<and> (escaped s \<longrightarrow> \<not> escaped (s @ [dquote]))
   \<and> ((field, validator) \<in> set contestTextValidators \<union> set eventTextValidators
        \<and> ps field = Some obj \<and> \<not> escaped obj \<longrightarrow>
      isl (validator h ps)
      \<and> ((field, validator) \<in> set contestTextValidators \<and> field \<in> set args
           \<and> outcome field = validator h ps \<longrightarrow> isl (contest_sqlParams args outcome))
      \<and> ((field, validator) \<in> set eventTextValidators
           \<and> outcome field = validator h ps \<longrightarrow> isl (events_sqlParams outcome)))"
proof -
  have composed: "isl (validator h ps) \<Longrightarrow>
      ((field, validator) \<in> set contestTextValidators \<and> field \<in> set args
           \<and> outcome field = validator h ps \<longrightarrow> isl (contest_sqlParams args outcome))
      \<and> ((field, validator) \<in> set eventTextValidators
           \<and> outcome field = validator h ps \<longrightarrow> isl (events_sqlParams outcome))"
    by (auto simp: contest_sqlParams_def events_sqlParams_def eventTextValidators_def Let_def
          intro!: autoTask_error [where field = field])
  show ?thesis
    using checkIllegalCharacters_None [of obj name] checkIllegalCharacters_rejects [of obj name]
      not_escaped_iff_unescaped_quote [of obj] not_escaped_single not_escaped_trailing [of s]
      textValidators_reject [of field validator ps obj h] composed
    by blast
qed

theorem checkIllegalCharacters_rejects_unescaped_quotes_witness:
  "checkIllegalCharacters (''Bob'' @ [dquote] @ '' OR 1=1'') ''name'' =
     Some (IllegalArgumentError ''name contains unescaped quotes.'')
   \<and> \<not> escaped (''Bob'' @ [dquote] @ '' OR 1=1'')
   \<and> unescapedQuoteAt (''Bob'' @ [dquote] @ '' OR 1=1'') 3
   \<and> isl (validator_name (specHelper exampleDates) [''name'' \<mapsto> ''Bob'' @ [dquote] @ '' OR 1=1''])
   \<and> isl (contest_sqlParams [''name'', ''adText'']
            (\<lambda>k. validator_name (specHelper exampleDates) [''name'' \<mapsto> ''Bob'' @ [dquote] @ '' OR 1=1'']))
   \<and> checkIllegalCharacters (''say '' @ [dquote, dquote] @ ''hi'' @ [dquote, dquote]) ''name'' = None
   \<and> escaped (''say '' @ [dquote, dquote] @ ''hi'' @ [dquote, dquote])"
proof -
  define bad where "bad = ''Bob'' @ [dquote] @ '' OR 1=1''"
  define good where "good = ''say '' @ [dquote, dquote] @ ''hi'' @ [dquote, dquote]"
  define ps where "ps = [''name'' \<mapsto> bad]"
  define out where "out = (\<lambda>k::string. validator_name (specHelper exampleDates) ps)"
  have bad: "checkIllegalCharacters bad ''name'' \<noteq> None"
    by (simp add: checkIllegalCharacters_def bad_def)
  have good: "checkIllegalCharacters good ''name'' = None"
    by (simp add: checkIllegalCharacters_def good_def)
  have member: "(''name'', validator_name) \<in> set contestTextValidators \<union> set eventTextValidators"
    "(''name'', validator_name) \<in> set contestTextValidators"
    by (simp_all add: contestTextValidators_def)
  have ps: "ps ''name'' = Some bad" by (simp add: ps_def)
  have out: "out ''name'' = validator_name (specHelper exampleDates) ps" by (simp add: out_def)
  have args: "''name'' \<in> set [''name'', ''adText'']" by simp
  note T = checkIllegalCharacters_rejects_unescaped_quotes
      [where obj = bad and name = "''name''" and s = "[]" and field = "''name''"
         and validator = validator_name and ps = ps and args = "[''name'', ''adText'']"
         and outcome = out and h = "specHelper exampleDates"]
  note G = checkIllegalCharacters_rejects_unescaped_quotes
      [where obj = good and name = "''name''" and s = "[]" and field = "''name''"
         and validator = validator_name and ps = ps and args = "[''name'', ''adText'']"
         and outcome = out and h = "specHelper exampleDates"]
  from T bad have nb: "\<not> escaped bad" by blast
  from T nb have e: "checkIllegalCharacters bad ''name'' =
          Some (IllegalArgumentError (''name'' @ '' contains unescaped quotes.''))" by blast
  from T nb member ps out args have v: "isl (validator_name (specHelper exampleDates) ps)"
     and c: "isl (contest_sqlParams [''name'', ''adText''] out)" by blast+
  from G good have g: "escaped good" by blast
  have u: "unescapedQuoteAt bad 3"
    by (simp add: bad_def unescapedQuoteAt_def quotesBefore_def)
  from nb e u v c g good show ?thesis
    by (simp add: bad_def good_def ps_def out_def)
qed

section \<open>Properties of the challenge search\<close>

text \<open>
  C9.  When the connection map of the databases is there and the request has no
  \<^verbatim>\<open>challengeName\<close>, \<^verbatim>\<open>searchSRMChallenges\<close> throws on reading \<^verbatim>\<open>toLowerCase\<close> of
  \<^verbatim>\<open>undefined\<close>: there is no response and no query is made.  And for a name that is
  there, the fallback \<^verbatim>\<open>|| '%'\<close> is never taken: the concatenation is not empty.
\<close>

theorem searchSRMChallenges_throws_without_challengeName:
  assumes "dbConnectionMap connection" and "params connection ''challengeName'' = None"
  shows "searchSRMChallenges_run l a connection =
           (Inl (TypeError ''Cannot read property toLowerCase of undefined''), [])
         \<and> (\<forall>name. orString (Some (''%'' @ toLowerCase name @ ''%'')) ''%''
                     = ''%'' @ toLowerCase name @ ''%'')"
  using assms by (simp add: searchSRMChallenges_run_def orString_def Let_def)

theorem searchSRMChallenges_throws_without_challengeName_witness:
  "dbConnectionMap (exampleConnection [''pageSize'' \<mapsto> ''10''])
   \<and> params (exampleConnection [''pageSize'' \<mapsto> ''10'']) ''challengeName'' = None
   \<and> searchSRMChallenges_run exampleLib (exampleApi [] 0) (exampleConnection [''pageSize'' \<mapsto> ''10''])
       = (Inl (TypeError ''Cannot read property toLowerCase of undefined''), [])"
proof -
  have c: "dbConnectionMap (exampleConnection [''pageSize'' \<mapsto> ''10''])"
    by (simp add: exampleConnection_def)
  have n: "params (exampleConnection [''pageSize'' \<mapsto> ''10'']) ''challengeName'' = None"
    by (simp add: exampleConnection_def)
  from searchSRMChallenges_throws_without_challengeName [OF c n, of exampleLib "exampleApi [] 0"] c n
  show ?thesis by simp
qed

section \<open>Properties of the list actions\<close>

lemma roundDouble_exact: "\<bar>x\<bar> < 2 ^ 53 \<Longrightarrow> roundDouble x = x"
  by (simp add: roundDouble_def Let_def)

lemma buildEnvelope_Inr:
  assumes "buildEnvelope f raw pIndex pSize count rows = Inr env"
  shows "data env = map f rows \<and> pageIndex env = pIndex
    \<and> (rows = [] \<longrightarrow> total env = Number (Num 0)
          \<and> pageSize env = (if raw = Num (- 1) then Number (Num 0) else Number pSize))
    \<and> (rows \<noteq> [] \<longrightarrow> (\<exists>crow rest. count = crow # rest \<and> total env = crow ''total_count'')
          \<and> pageSize env = (if raw = Num (- 1) then total env else Number pSize))"
  using assms by (auto simp: buildEnvelope_def Let_def split: if_splits list.splits)

lemma parallel2_Inr: "(parallel2 x y = Inr (u, v)) = (x = Inr u \<and> y = Inr v)"
  by (auto simp: parallel2_def split: sum.splits)

lemma NumberOf_sentinel: "(NumberOf l p = Num (- 1)) = (NumberOr l p 1 = Num (- 1))"
  by (auto simp: NumberOf_def NumberOr_def split: option.splits)

text \<open>The shape of a run that reached the store.\<close>

lemma search_queried:
  assumes "searchSRMChallenges_run l a connection = (result, calls)"
      and "calls \<noteq> [] \<or> \<not> isl result"
  shows "\<exists>name sp.
           params connection ''challengeName'' = Some name \<and>
           sp = search_sqlParams l (helper a) (params connection)
                  (orString (Some (''%'' @ toLowerCase name @ ''%'')) ''%'') \<and>
           dbConnectionMap connection \<and>
           search_validate l (helper a) (params connection)
                  (orString (Some (''%'' @ toLowerCase name @ ''%'')) ''%'') = None \<and>
           calls = [ExecuteQuery ''get_srm_challenges_count'' sp, ExecuteQuery ''get_srm_challenges'' sp] \<and>
           (\<forall>env. result = Inr env \<longrightarrow>
              (\<exists>count rows.
                 executeQuery a ''get_srm_challenges_count'' sp = Inr count \<and>
                 executeQuery a ''get_srm_challenges'' sp = Inr rows \<and>
                 buildEnvelope search_challenge (NumberOf l (params connection ''pageIndex''))
                   (sentinelPageIndex (NumberOr l (params connection ''pageIndex'') 1))
                   (sentinelPageSize (NumberOr l (params connection ''pageIndex'') 1)
                      (NumberOr l (params connection ''pageSize'') DEFAULT_PAGE_SIZE))
                   count rows = Inr env))"
  using assms unfolding searchSRMChallenges_run_def Let_def
  by (auto split: if_splits option.splits sum.splits prod.splits simp: parallel2_Inr)

lemma schedule_queried:
  assumes "getSRMSchedule_run l a connection = (result, calls)"
      and "calls \<noteq> [] \<or> \<not> isl result"
  shows "\<exists>qd qc sp.
           sp = schedule_sqlParams l (helper a) (params connection) \<and>
           dbConnectionMap connection \<and>
           schedule_validate l (helper a) (params connection) = None \<and>
           calls = [ExecuteSqlQuery qd sp, ExecuteSqlQuery qc sp] \<and>
           (\<forall>env. result = Inr env \<longrightarrow>
              (\<exists>count rows.
                 executeSqlQuery a qc sp = Inr count \<and>
                 executeSqlQuery a qd sp = Inr rows \<and>
                 buildEnvelope schedule_item (NumberOf l (params connection ''pageIndex''))
                   (sentinelPageIndex (NumberOr l (params connection ''pageIndex'') 1))
                   (sentinelPageSize (NumberOr l (params connection ''pageIndex'') 1)
                      (NumberOr l (params connection ''pageSize'') DEFAULT_PAGE_SIZE))
                   count rows = Inr env))"
  using assms unfolding getSRMSchedule_run_def Let_def
  by (auto split: if_splits option.splits sum.splits prod.splits simp: parallel2_Inr)

lemma search_sqlParams_window:
  "search_sqlParams l h ps cn ''firstRowIndex'' =
     Number (num_mul (num_sub (sentinelPageIndex (NumberOr l (ps ''pageIndex'') 1)) (Num 1))
        (sentinelPageSize (NumberOr l (ps ''pageIndex'') 1) (NumberOr l (ps ''pageSize'') DEFAULT_PAGE_SIZE)))"
  "search_sqlParams l h ps cn ''pageSize'' =
     Number (sentinelPageSize (NumberOr l (ps ''pageIndex'') 1) (NumberOr l (ps ''pageSize'') DEFAULT_PAGE_SIZE))"
  "search_sqlParams l h ps cn ''sortOrder'' = String (search_sortOrder ps)"
  by (simp_all add: search_sqlParams_def Let_def)

lemma schedule_sqlParams_window:
  "schedule_sqlParams l h ps ''firstRowIndex'' =
     Number (num_mul (num_sub (sentinelPageIndex (NumberOr l (ps ''pageIndex'') 1)) (Num 1))
        (sentinelPageSize (NumberOr l (ps ''pageIndex'') 1) (NumberOr l (ps ''pageSize'') DEFAULT_PAGE_SIZE)))"
  "schedule_sqlParams l h ps ''pageSize'' =
     Number (sentinelPageSize (NumberOr l (ps ''pageIndex'') 1) (NumberOr l (ps ''pageSize'') DEFAULT_PAGE_SIZE))"
  "schedule_sqlParams l h ps ''sortOrder'' = String (schedule_sortOrder ps)"
  by (simp_all add: schedule_sqlParams_def Let_def)

text \<open>The window of a page, in the arithmetic of the actions and exactly.\<close>

lemma window_page:
  assumes "1 \<le> i" and "0 < n"
  shows "sentinelPageIndex (Num i) = Num i" and "sentinelPageSize (Num i) (Num n) = Num n"
    and "(i - 1) * n < 2 ^ 53 \<Longrightarrow> num_mul (num_sub (Num i) (Num 1)) (Num n) = Num ((i - 1) * n)"
proof -
  show "sentinelPageIndex (Num i) = Num i" "sentinelPageSize (Num i) (Num n) = Num n"
    using assms by (simp_all add: sentinelPageIndex_def sentinelPageSize_def)
  assume small: "(i - 1) * n < 2 ^ 53"
  have "i - 1 \<le> (i - 1) * n" using assms by (simp add: mult_le_cancel_left1)
  with small assms have "\<bar>i - 1\<bar> < 2 ^ 53" by simp
  moreover have "0 \<le> (i - 1) * n" using assms by simp
  with small have "\<bar>(i - 1) * n\<bar> < 2 ^ 53" by simp
  ultimately show "num_mul (num_sub (Num i) (Num 1)) (Num n) = Num ((i - 1) * n)"
    by (simp add: roundDouble_exact)
qed

lemma window_sentinel:
  "sentinelPageIndex (Num (- 1)) = Num 1" "sentinelPageSize (Num (- 1)) pSize = Num MAX_INT"
  "num_mul (num_sub (Num 1) (Num 1)) (Num MAX_INT) = Num 0"
  by (simp_all add: sentinelPageIndex_def sentinelPageSize_def roundDouble_exact)

text \<open>The pagination of one action, given the shape of a run that reached the store.\<close>

lemma page_window_of_shape:
  assumes calls: "calls = [] \<or> (\<exists>c1 c2. calls = [c1, c2] \<and> callParams c1 = sp \<and> callParams c2 = sp)"
      and fr: "sp ''firstRowIndex'' =
                 Number (num_mul (num_sub (sentinelPageIndex pIndex) (Num 1)) (sentinelPageSize pIndex pSize))"
      and sz: "sp ''pageSize'' = Number (sentinelPageSize pIndex pSize)"
  shows "(\<forall>c \<in> set calls. \<forall>i n. pIndex = Num i \<and> 1 \<le> i \<and> pSize = Num n \<and> 0 < n \<longrightarrow>
            callParams c ''firstRowIndex'' = Number (num_mul (num_sub (Num i) (Num 1)) (Num n))
          \<and> ((i - 1) * n < 2 ^ 53 \<longrightarrow> callParams c ''firstRowIndex'' = Number (Num ((i - 1) * n)))
          \<and> callParams c ''pageSize'' = Number (Num n))
       \<and> (pIndex = Num (- 1) \<longrightarrow>
            (\<forall>c \<in> set calls. callParams c ''firstRowIndex'' = Number (Num 0)
                           \<and> callParams c ''pageSize'' = Number (Num MAX_INT)))"
  using calls fr sz
  by (auto simp: window_page window_sentinel simp del: num_mul.simps num_sub.simps)

text \<open>
  C2, as the code has it.  For \<^verbatim>\<open>searchSRMChallenges\<close> and \<^verbatim>\<open>getSRMSchedule\<close>: a run
  that answers with an envelope has made its two queries.  With a page index
  \<open>i \<ge> 1\<close> and a page size \<open>n > 0\<close> (after the defaults), every query is made with
  \<^verbatim>\<open>pageSize = n\<close> and with the \<^verbatim>\<open>firstRowIndex\<close> that the action computes in doubles:
  it is \<open>(i - 1) * n\<close> when this product is below \<open>2^53\<close>, and in general the product
  rounded to a double.  With the page index \<open>-1\<close> every
  query is made with \<^verbatim>\<open>firstRowIndex = 0\<close> and \<^verbatim>\<open>pageSize = MAX_INT\<close>, and the
  \<^verbatim>\<open>pageSize\<close> of the envelope is \<open>0\<close> when there are no rows and otherwise the
  \<^verbatim>\<open>total\<close> of the envelope, which is the \<^verbatim>\<open>total_count\<close> the count query answered.
  \<open>countAt\<close> is the place of the count query among the calls.
\<close>

theorem list_requests_page_window:
  assumes which: "run = searchSRMChallenges_run \<and> countAt = 0 \<or> run = getSRMSchedule_run \<and> countAt = 1"
      and out: "run l a connection = (result, calls)"
      and pIndex: "pIndex = NumberOr l (params connection ''pageIndex'') 1"
      and pSize: "pSize = NumberOr l (params connection ''pageSize'') DEFAULT_PAGE_SIZE"
  shows "(\<not> isl result \<longrightarrow> length calls = 2)
       \<and> (\<forall>c \<in> set calls. \<forall>i n. pIndex = Num i \<and> 1 \<le> i \<and> pSize = Num n \<and> 0 < n \<longrightarrow>
            callParams c ''firstRowIndex'' = Number (num_mul (num_sub (Num i) (Num 1)) (Num n))
          \<and> ((i - 1) * n < 2 ^ 53 \<longrightarrow> callParams c ''firstRowIndex'' = Number (Num ((i - 1) * n)))
          \<and> callParams c ''pageSize'' = Number (Num n))
       \<and> (pIndex = Num (- 1) \<longrightarrow>
            (\<forall>c \<in> set calls. callParams c ''firstRowIndex'' = Number (Num 0)
                           \<and> callParams c ''pageSize'' = Number (Num MAX_INT))
          \<and> (\<forall>env. result = Inr env \<longrightarrow>
                (data env = [] \<longrightarrow> pageSize env = Number (Num 0))
              \<and> (data env \<noteq> [] \<longrightarrow>
                   pageSize env = total env
                 \<and> (\<exists>crow rest. answer a (calls ! countAt) = Inr (crow # rest)
                                 \<and> total env = crow ''total_count''))))"
proof -
  let ?raw = "NumberOf l (params connection ''pageIndex'')"
  let ?pi = "sentinelPageIndex pIndex" and ?ps = "sentinelPageSize pIndex pSize"
  have shape: "\<exists>sp f.
      (calls = [] \<or> (\<exists>c1 c2. calls = [c1, c2] \<and> callParams c1 = sp \<and> callParams c2 = sp))
    \<and> sp ''firstRowIndex'' = Number (num_mul (num_sub ?pi (Num 1)) ?ps)
    \<and> sp ''pageSize'' = Number ?ps
    \<and> (\<not> isl result \<longrightarrow> length calls = 2)
    \<and> (\<forall>env. result = Inr env \<longrightarrow>
          (\<exists>count rows. answer a (calls ! countAt) = Inr count
                       \<and> buildEnvelope f ?raw ?pi ?ps count rows = Inr env))"
  proof (cases "calls \<noteq> [] \<or> \<not> isl result")
    case False
    then have "calls = []" and "isl result" by simp_all
    then show ?thesis
      using search_sqlParams_window(1,2) [of l "helper a" "params connection" "[]"]
      unfolding pIndex pSize by (intro exI [of _ "search_sqlParams l (helper a) (params connection) []"]) auto
  next
    case True
    from which show ?thesis
    proof
      assume "run = searchSRMChallenges_run \<and> countAt = 0"
      with out True search_queried [of l a connection result calls]
      show ?thesis
        unfolding pIndex pSize
        by (fastforce simp: search_sqlParams_window)
    next
      assume "run = getSRMSchedule_run \<and> countAt = 1"
      with out True schedule_queried [of l a connection result calls]
      show ?thesis
        unfolding pIndex pSize
        by (fastforce simp: schedule_sqlParams_window)
    qed
  qed
  then obtain sp f where
        calls: "calls = [] \<or> (\<exists>c1 c2. calls = [c1, c2] \<and> callParams c1 = sp \<and> callParams c2 = sp)"
    and fr: "sp ''firstRowIndex'' = Number (num_mul (num_sub ?pi (Num 1)) ?ps)"
    and sz: "sp ''pageSize'' = Number ?ps"
    and len: "\<not> isl result \<longrightarrow> length calls = 2"
    and env: "\<And>env. result = Inr env \<Longrightarrow>
          \<exists>count rows. answer a (calls ! countAt) = Inr count
                       \<and> buildEnvelope f ?raw ?pi ?ps count rows = Inr env"
    by blast
  have sentinel: "pIndex = Num (- 1) \<Longrightarrow> ?raw = Num (- 1)"
    unfolding pIndex by (simp add: NumberOf_sentinel)
  have envelope: "(data env = [] \<longrightarrow> pageSize env = Number (Num 0))
              \<and> (data env \<noteq> [] \<longrightarrow>
                   pageSize env = total env
                 \<and> (\<exists>crow rest. answer a (calls ! countAt) = Inr (crow # rest)
                                 \<and> total env = crow ''total_count''))"
    if "pIndex = Num (- 1)" and "result = Inr env" for env
  proof -
    from env [OF that(2)] obtain count rows where
      c: "answer a (calls ! countAt) = Inr count" and
      b: "buildEnvelope f ?raw ?pi ?ps count rows = Inr env" by blast
    from buildEnvelope_Inr [OF b] sentinel [OF that(1)] c show ?thesis by auto
  qed
  from page_window_of_shape [OF calls fr sz] len envelope show ?thesis by blast
qed

theorem list_requests_page_window_witness:
  "\<not> isl (fst (searchSRMChallenges_run exampleLib (exampleApi [emptyObj, emptyObj] 7)
       (exampleConnection [''pageIndex'' \<mapsto> ''3'', ''pageSize'' \<mapsto> ''20'', ''challengeName'' \<mapsto> ''srm''])))
   \<and> callParams (hd (snd (searchSRMChallenges_run exampleLib (exampleApi [emptyObj, emptyObj] 7)
       (exampleConnection [''pageIndex'' \<mapsto> ''3'', ''pageSize'' \<mapsto> ''20'', ''challengeName'' \<mapsto> ''srm'']))))
       ''firstRowIndex'' = Number (Num 40)
   \<and> \<not> isl (fst (getSRMSchedule_run exampleLib (exampleApi [emptyObj, emptyObj] 7)
       (exampleConnection [''pageIndex'' \<mapsto> ''-1''])))
   \<and> callParams (hd (snd (getSRMSchedule_run exampleLib (exampleApi [emptyObj, emptyObj] 7)
       (exampleConnection [''pageIndex'' \<mapsto> ''-1''])))) ''pageSize'' = Number (Num MAX_INT)
   \<and> pageSize (projr (fst (getSRMSchedule_run exampleLib (exampleApi [emptyObj, emptyObj] 7)
       (exampleConnection [''pageIndex'' \<mapsto> ''-1''])))) = Number (Num 7)"
proof -
  define c1 where "c1 = exampleConnection [''pageIndex'' \<mapsto> ''3'', ''pageSize'' \<mapsto> ''20'', ''challengeName'' \<mapsto> ''srm'']"
  define c2 where "c2 = exampleConnection [''pageIndex'' \<mapsto> ''-1'']"
  define a where "a = exampleApi [emptyObj, emptyObj] 7"
  define R where "R = searchSRMChallenges_run exampleLib a c1"
  define S where "S = getSRMSchedule_run exampleLib a c2"
  have R: "searchSRMChallenges_run exampleLib a c1 = (fst R, snd R)"
   and S: "getSRMSchedule_run exampleLib a c2 = (fst S, snd S)"
    by (simp_all add: R_def S_def)
  have okR: "\<not> isl (fst R)" and okS: "\<not> isl (fst S)"
    unfolding R_def S_def a_def c1_def c2_def by code_simp+
  have p1: "NumberOr exampleLib (params c1 ''pageIndex'') 1 = Num 3"
   and s1: "NumberOr exampleLib (params c1 ''pageSize'') DEFAULT_PAGE_SIZE = Num 20"
   and p2: "NumberOr exampleLib (params c2 ''pageIndex'') 1 = Num (- 1)"
    unfolding c1_def c2_def by code_simp+
  have dataS: "data (projr (fst S)) \<noteq> []" and totalS: "total (projr (fst S)) = Number (Num 7)"
    unfolding S_def a_def c2_def by code_simp+
  note TR = list_requests_page_window [where run = searchSRMChallenges_run and countAt = 0,
      OF _ R refl refl]
  note TS = list_requests_page_window [where run = getSRMSchedule_run and countAt = 1,
      OF _ S refl refl]
  from TR okR have "length (snd R) = 2" by simp
  then have hdR: "hd (snd R) \<in> set (snd R)" by (cases "snd R") auto
  from TS okS have "length (snd S) = 2" by simp
  then have hdS: "hd (snd S) \<in> set (snd S)" by (cases "snd S") auto
  from TR hdR p1 s1 have fr: "callParams (hd (snd R)) ''firstRowIndex'' = Number (Num 40)"
    by fastforce
  from TS hdS p2 have sz: "callParams (hd (snd S)) ''pageSize'' = Number (Num MAX_INT)"
    by fastforce
  from okS have envS: "fst S = Inr (projr (fst S))" by (cases "fst S") auto
  from TS p2 envS dataS totalS have ps: "pageSize (projr (fst S)) = Number (Num 7)"
    by fastforce
  from okR fr okS sz ps show ?thesis
    unfolding R_def S_def a_def c1_def c2_def by blast
qed

text \<open>
  C2 as stated does not hold for every accepted request: with the page index and the
  page size both \<open>2147483647\<close>, which every check accepts, both actions query with
  \<^verbatim>\<open>firstRowIndex = 4611686011984936960\<close>, the double nearest to the product
  \<open>4611686011984936962\<close>.
\<close>

theorem page_window_rounding_counterexample:
  "\<not> isl (fst (searchSRMChallenges_run exampleLib (exampleApi [emptyObj] 7)
       (exampleConnection [''pageIndex'' \<mapsto> ''2147483647'', ''pageSize'' \<mapsto> ''2147483647'',
                           ''challengeName'' \<mapsto> ''srm''])))
   \<and> callParams (hd (snd (searchSRMChallenges_run exampleLib (exampleApi [emptyObj] 7)
       (exampleConnection [''pageIndex'' \<mapsto> ''2147483647'', ''pageSize'' \<mapsto> ''2147483647'',
                           ''challengeName'' \<mapsto> ''srm'']))))
       ''firstRowIndex'' = Number (Num 4611686011984936960)
   \<and> \<not> isl (fst (getSRMSchedule_run exampleLib (exampleApi [emptyObj] 7)
       (exampleConnection [''pageIndex'' \<mapsto> ''2147483647'', ''pageSize'' \<mapsto> ''2147483647''])))
   \<and> callParams (hd (snd (getSRMSchedule_run exampleLib (exampleApi [emptyObj] 7)
       (exampleConnection [''pageIndex'' \<mapsto> ''2147483647'', ''pageSize'' \<mapsto> ''2147483647'']))))
       ''firstRowIndex'' = Number (Num 4611686011984936960)
   \<and> (2147483647 - 1) * 2147483647 = (4611686011984936962 :: int)
   \<and> Number (Num 4611686011984936960) \<noteq> Number (Num ((2147483647 - 1) * 2147483647))"
  by (intro conjI; code_simp)

lemma practice_answered:
  assumes "getPracticeProblems_run l a connection = (Inr env, calls)"
  shows "\<exists>qd qc sp rows crow rest.
           calls = [ExecuteSqlQuery qd sp, ExecuteSqlQuery qc sp] \<and>
           executeSqlQuery a qd sp = Inr rows \<and>
           executeSqlQuery a qc sp = Inr (crow # rest) \<and>
           env = \<lparr> total = crow ''total_count'',
                   pageIndex = NumberOr l (params connection ''pageIndex'') 1,
                   pageSize = Number (NumberOr l (params connection ''pageSize'') 10),
                   data = transferDBResults2Response (helper a) rows \<rparr>"
  using assms unfolding getPracticeProblems_run_def Let_def
  by (auto split: if_splits option.splits sum.splits prod.splits list.splits simp: parallel2_Inr)

lemma buildEnvelope_empty:
  assumes "buildEnvelope f (NumberOf l p) (sentinelPageIndex (NumberOr l p 1))
             (sentinelPageSize (NumberOr l p 1) pSize) count [] = Inr env"
  shows "env = \<lparr> total = Number (Num 0),
                 pageIndex = sentinelPageIndex (NumberOr l p 1),
                 pageSize = (if NumberOr l p 1 = Num (- 1) then Number (Num 0) else Number pSize),
                 data = [] \<rparr>"
  using assms
  by (auto simp: buildEnvelope_def NumberOf_sentinel sentinelPageSize_def)

text \<open>
  C3, as the code has it.  For \<^verbatim>\<open>searchSRMChallenges\<close> and \<^verbatim>\<open>getSRMSchedule\<close>: when the
  data query answers with no rows, the envelope has \<^verbatim>\<open>total = 0\<close> whatever the count
  query answered, no data, the page index of the request (\<open>1\<close> for the sentinel) and
  as page size the one of the request, or \<open>0\<close> for the sentinel.
  \<^verbatim>\<open>getPracticeProblems\<close> has no such case: its \<^verbatim>\<open>total\<close> is always the
  \<^verbatim>\<open>total_count\<close> the count query answered, also when there are no rows.
\<close>

theorem empty_page_envelope:
  assumes "pIndex = NumberOr l (params connection ''pageIndex'') 1"
      and "pSize = NumberOr l (params connection ''pageSize'') DEFAULT_PAGE_SIZE"
  shows "(searchSRMChallenges_run l a connection = (Inr env, calls) \<and> answer a (calls ! 1) = Inr [] \<longrightarrow>
            env = \<lparr> total = Number (Num 0), pageIndex = sentinelPageIndex pIndex,
                    pageSize = (if pIndex = Num (- 1) then Number (Num 0) else Number pSize),
                    data = [] \<rparr>)
       \<and> (getSRMSchedule_run l a connection = (Inr env, calls) \<and> answer a (calls ! 0) = Inr [] \<longrightarrow>
            env = \<lparr> total = Number (Num 0), pageIndex = sentinelPageIndex pIndex,
                    pageSize = (if pIndex = Num (- 1) then Number (Num 0) else Number pSize),
                    data = [] \<rparr>)
       \<and> (getPracticeProblems_run l a connection = (Inr env, calls) \<longrightarrow>
            (\<exists>rows crow rest.
               answer a (calls ! 0) = Inr rows \<and> answer a (calls ! 1) = Inr (crow # rest) \<and>
               env = \<lparr> total = crow ''total_count'',
                       pageIndex = NumberOr l (params connection ''pageIndex'') 1,
                       pageSize = Number (NumberOr l (params connection ''pageSize'') 10),
                       data = transferDBResults2Response (helper a) rows \<rparr>))"
proof (intro conjI impI)
  assume h: "searchSRMChallenges_run l a connection = (Inr env, calls) \<and> answer a (calls ! 1) = Inr []"
  then have run: "searchSRMChallenges_run l a connection = (Inr env, calls)"
    and empty: "answer a (calls ! 1) = Inr []" by simp_all
  from search_queried [OF run] empty obtain count where
    "buildEnvelope search_challenge (NumberOf l (params connection ''pageIndex''))
       (sentinelPageIndex (NumberOr l (params connection ''pageIndex'') 1))
       (sentinelPageSize (NumberOr l (params connection ''pageIndex'') 1)
          (NumberOr l (params connection ''pageSize'') DEFAULT_PAGE_SIZE)) count [] = Inr env"
    by auto
  from buildEnvelope_empty [OF this] show "env = \<lparr> total = Number (Num 0), pageIndex = sentinelPageIndex pIndex,
                    pageSize = (if pIndex = Num (- 1) then Number (Num 0) else Number pSize),
                    data = [] \<rparr>"
    unfolding assms .
next
  assume h: "getSRMSchedule_run l a connection = (Inr env, calls) \<and> answer a (calls ! 0) = Inr []"
  then have run: "getSRMSchedule_run l a connection = (Inr env, calls)"
    and empty: "answer a (calls ! 0) = Inr []" by simp_all
  from schedule_queried [OF run] empty obtain count where
    "buildEnvelope schedule_item (NumberOf l (params connection ''pageIndex''))
       (sentinelPageIndex (NumberOr l (params connection ''pageIndex'') 1))
       (sentinelPageSize (NumberOr l (params connection ''pageIndex'') 1)
          (NumberOr l (params connection ''pageSize'') DEFAULT_PAGE_SIZE)) count [] = Inr env"
    by auto
  from buildEnvelope_empty [OF this] show "env = \<lparr> total = Number (Num 0), pageIndex = sentinelPageIndex pIndex,
                    pageSize = (if pIndex = Num (- 1) then Number (Num 0) else Number pSize),
                    data = [] \<rparr>"
    unfolding assms .
next
  assume run: "getPracticeProblems_run l a connection = (Inr env, calls)"
  from practice_answered [OF run] show "\<exists>rows crow rest.
               answer a (calls ! 0) = Inr rows \<and> answer a (calls ! 1) = Inr (crow # rest) \<and>
               env = \<lparr> total = crow ''total_count'',
                       pageIndex = NumberOr l (params connection ''pageIndex'') 1,
                       pageSize = Number (NumberOr l (params connection ''pageSize'') 10),
                       data = transferDBResults2Response (helper a) rows \<rparr>"
    by auto
qed

theorem empty_page_envelope_witness:
  "\<not> isl (fst (searchSRMChallenges_run exampleLib (exampleApi [] 5)
       (exampleConnection [''pageIndex'' \<mapsto> ''4'', ''pageSize'' \<mapsto> ''2'', ''challengeName'' \<mapsto> ''srm''])))
   \<and> projr (fst (searchSRMChallenges_run exampleLib (exampleApi [] 5)
       (exampleConnection [''pageIndex'' \<mapsto> ''4'', ''pageSize'' \<mapsto> ''2'', ''challengeName'' \<mapsto> ''srm''])))
     = \<lparr> total = Number (Num 0), pageIndex = Num 4, pageSize = Number (Num 2), data = [] \<rparr>"
proof -
  define c where "c = exampleConnection [''pageIndex'' \<mapsto> ''4'', ''pageSize'' \<mapsto> ''2'', ''challengeName'' \<mapsto> ''srm'']"
  define a where "a = exampleApi [] 5"
  define R where "R = searchSRMChallenges_run exampleLib a c"
  have ok: "\<not> isl (fst R)"
    unfolding R_def a_def c_def by code_simp
  then have R: "searchSRMChallenges_run exampleLib a c = (Inr (projr (fst R)), snd R)"
    unfolding R_def by (cases "fst (searchSRMChallenges_run exampleLib a c)") (auto simp: prod_eq_iff)
  have "\<not> isl (answer a (snd R ! 1))" and "length (projr (answer a (snd R ! 1))) = 0"
    unfolding R_def a_def c_def by code_simp+
  then have empty: "answer a (snd R ! 1) = Inr []"
    by (cases "answer a (snd R ! 1)") auto
  have p: "NumberOr exampleLib (params c ''pageIndex'') 1 = Num 4"
   and z: "NumberOr exampleLib (params c ''pageSize'') DEFAULT_PAGE_SIZE = Num 2"
    unfolding c_def by code_simp+
  from empty_page_envelope [OF refl refl, of exampleLib a c "projr (fst R)" "snd R"] R empty
  have "projr (fst R) = \<lparr> total = Number (Num 0), pageIndex = Num 4, pageSize = Number (Num 2), data = [] \<rparr>"
    by (simp add: p z sentinelPageIndex_def)
  with ok show ?thesis unfolding R_def a_def c_def by simp
qed

theorem practice_problems_total_counterexample:
  "\<not> isl (fst (getPracticeProblems_run exampleLib (exampleApi [] 5)
       (exampleConnection [''pageIndex'' \<mapsto> ''4'', ''pageSize'' \<mapsto> ''2''])))
   \<and> \<not> isl (answer (exampleApi [] 5) (snd (getPracticeProblems_run exampleLib (exampleApi [] 5)
       (exampleConnection [''pageIndex'' \<mapsto> ''4'', ''pageSize'' \<mapsto> ''2''])) ! 0))
   \<and> length (projr (answer (exampleApi [] 5) (snd (getPracticeProblems_run exampleLib (exampleApi [] 5)
       (exampleConnection [''pageIndex'' \<mapsto> ''4'', ''pageSize'' \<mapsto> ''2''])) ! 0))) = 0
   \<and> length (data (projr (fst (getPracticeProblems_run exampleLib (exampleApi [] 5)
       (exampleConnection [''pageIndex'' \<mapsto> ''4'', ''pageSize'' \<mapsto> ''2'']))))) = 0
   \<and> total (projr (fst (getPracticeProblems_run exampleLib (exampleApi [] 5)
       (exampleConnection [''pageIndex'' \<mapsto> ''4'', ''pageSize'' \<mapsto> ''2''])))) = Number (Num 5)"
  by (intro conjI; code_simp)

lemma lower_asc: "toLowerCase ''asc'' = ''asc''"
  by code_simp

text \<open>
  C8, as the code has it.  In every query of \<^verbatim>\<open>searchSRMChallenges\<close> and of
  \<^verbatim>\<open>getSRMSchedule\<close> the sort order is: the one supplied, in lower case (ascending for
  a supplied empty one); and when none is supplied, descending if the sort column is
  the default of the endpoint, ascending otherwise.  The sort column is the one
  supplied, in lower case, or the default; for the challenge search
  \<^verbatim>\<open>submissionEndDate\<close> counts as \<^verbatim>\<open>roundId\<close>, the default.
\<close>

theorem sort_order_defaults:
  assumes "ps = params connection"
  shows "(\<forall>c \<in> set (snd (searchSRMChallenges_run l a connection)).
            callParams c ''sortOrder'' = String (search_sortOrder ps))
       \<and> (\<forall>c \<in> set (snd (getSRMSchedule_run l a connection)).
            callParams c ''sortOrder'' = String (schedule_sortOrder ps))
       \<and> search_sortOrder ps =
           (case ps ''sortOrder'' of
              None \<Rightarrow> if toLowerCase (orString (ps ''sortColumn'') ''roundId'')
                          \<in> {''roundid'', ''submissionenddate''}
                       then ''desc'' else ''asc''
            | Some s \<Rightarrow> if s = [] then ''asc'' else toLowerCase s)
       \<and> schedule_sortOrder ps =
           (case ps ''sortOrder'' of
              None \<Rightarrow> if toLowerCase (orString (ps ''sortColumn'') ''registrationStartTime'')
                          = ''registrationstarttime''
                       then ''desc'' else ''asc''
            | Some s \<Rightarrow> if s = [] then ''asc'' else toLowerCase s)"
proof -
  obtain r1 c1 where R: "searchSRMChallenges_run l a connection = (r1, c1)" by fastforce
  obtain r2 c2 where S: "getSRMSchedule_run l a connection = (r2, c2)" by fastforce
  have "\<forall>c \<in> set c1. callParams c ''sortOrder'' = String (search_sortOrder ps)"
  proof (cases "c1 = []")
    case False
    with search_queried [OF R] show ?thesis
      unfolding assms by (auto simp: search_sqlParams_window)
  qed simp
  moreover have "\<forall>c \<in> set c2. callParams c ''sortOrder'' = String (schedule_sortOrder ps)"
  proof (cases "c2 = []")
    case False
    with schedule_queried [OF S] show ?thesis
      unfolding assms by (auto simp: schedule_sqlParams_window)
  qed simp
  moreover have "search_sortOrder ps =
           (case ps ''sortOrder'' of
              None \<Rightarrow> if toLowerCase (orString (ps ''sortColumn'') ''roundId'')
                          \<in> {''roundid'', ''submissionenddate''}
                       then ''desc'' else ''asc''
            | Some s \<Rightarrow> if s = [] then ''asc'' else toLowerCase s)"
    by (auto simp: search_sortOrder_def search_sortColumn_def isDefined_def orString_def
          lower_asc Let_def split: option.splits)
  moreover have "schedule_sortOrder ps =
           (case ps ''sortOrder'' of
              None \<Rightarrow> if toLowerCase (orString (ps ''sortColumn'') ''registrationStartTime'')
                          = ''registrationstarttime''
                       then ''desc'' else ''asc''
            | Some s \<Rightarrow> if s = [] then ''asc'' else toLowerCase s)"
    by (auto simp: schedule_sortOrder_def schedule_sortColumn_def isDefined_def orString_def
          lower_asc Let_def split: option.splits)
  ultimately show ?thesis by (simp add: R S)
qed

theorem sort_order_defaults_witness:
  "callParams (hd (snd (getSRMSchedule_run exampleLib (exampleApi [] 0)
      (exampleConnection [''sortColumn'' \<mapsto> ''codingStartTime''])))) ''sortOrder'' = String ''asc''
   \<and> callParams (hd (snd (getSRMSchedule_run exampleLib (exampleApi [] 0)
      (exampleConnection [''sortOrder'' \<mapsto> ''DESC''])))) ''sortOrder'' = String ''desc''
   \<and> schedule_sortOrder Map.empty = ''desc''"
proof -
  define c1 where "c1 = exampleConnection [''sortColumn'' \<mapsto> ''codingStartTime'']"
  define c2 where "c2 = exampleConnection [''sortOrder'' \<mapsto> ''DESC'']"
  define a where "a = exampleApi [] 0"
  have l1: "length (snd (getSRMSchedule_run exampleLib a c1)) = 2"
   and l2: "length (snd (getSRMSchedule_run exampleLib a c2)) = 2"
    unfolding a_def c1_def c2_def by code_simp+
  have h1: "hd (snd (getSRMSchedule_run exampleLib a c1)) \<in> set (snd (getSRMSchedule_run exampleLib a c1))"
    using l1 by (cases "snd (getSRMSchedule_run exampleLib a c1)") auto
  have h2: "hd (snd (getSRMSchedule_run exampleLib a c2)) \<in> set (snd (getSRMSchedule_run exampleLib a c2))"
    using l2 by (cases "snd (getSRMSchedule_run exampleLib a c2)") auto
  have o1: "schedule_sortOrder (params c1) = ''asc''"
   and o2: "schedule_sortOrder (params c2) = ''desc''"
   and o3: "schedule_sortOrder Map.empty = ''desc''"
    unfolding c1_def c2_def by code_simp+
  from sort_order_defaults [OF refl, of exampleLib a c1] h1 o1
  have r1: "callParams (hd (snd (getSRMSchedule_run exampleLib a c1))) ''sortOrder'' = String ''asc''"
    by simp
  from sort_order_defaults [OF refl, of exampleLib a c2] h2 o2
  have r2: "callParams (hd (snd (getSRMSchedule_run exampleLib a c2))) ''sortOrder'' = String ''desc''"
    by simp
  from r1 r2 o3 show ?thesis unfolding a_def c1_def c2_def by simp
qed

theorem sort_order_submissionEndDate_counterexample:
  "params (exampleConnection [''sortColumn'' \<mapsto> ''submissionEndDate'', ''challengeName'' \<mapsto> ''srm''])
      ''sortOrder'' = None
   \<and> toLowerCase ''submissionEndDate'' \<noteq> toLowerCase ''roundId''
   \<and> \<not> isl (fst (searchSRMChallenges_run exampleLib (exampleApi [] 0)
      (exampleConnection [''sortColumn'' \<mapsto> ''submissionEndDate'', ''challengeName'' \<mapsto> ''srm''])))
   \<and> callParams (hd (snd (searchSRMChallenges_run exampleLib (exampleApi [] 0)
      (exampleConnection [''sortColumn'' \<mapsto> ''submissionEndDate'', ''challengeName'' \<mapsto> ''srm'']))))
      ''sortOrder'' = String ''desc''"
  by (intro conjI; code_simp)

section \<open>Properties of the validation of the schedule\<close>

lemma validatePhaseTime_error:
  "validatePhaseTime error pb nb pa na h = orElse error (validatePhaseTime None pb nb pa na h)"
  by (cases error) (auto simp: validatePhaseTime_def Let_def split: option.splits)

lemma checkPhaseTimes_fold:
  "foldl (\<lambda>error phase.
            validatePhaseTime error (ps (phase @ ''Before'')) (phase @ ''Before'')
              (ps (phase @ ''After'')) (phase @ ''After'') h) error phases
   = orElse error
       (foldr orElse
          (map (\<lambda>phase. validatePhaseTime None (ps (phase @ ''Before'')) (phase @ ''Before'')
                            (ps (phase @ ''After'')) (phase @ ''After'') h) phases) None)"
proof (induction phases arbitrary: error)
  case Nil
  show ?case by (cases error) simp_all
next
  case (Cons p phases)
  show ?case
    by (cases error)
       (simp_all add: Cons.IH
          validatePhaseTime_error [where error = "Some _"])
qed

lemma checkPhaseTimes_first_error:
  "checkPhaseTimes error ps h
   = orElse error
       (foldr orElse
          (map (\<lambda>phase. validatePhaseTime None (ps (phase @ ''Before'')) (phase @ ''Before'')
                            (ps (phase @ ''After'')) (phase @ ''After'') h) PHASE_TIMES) None)"
  unfolding checkPhaseTimes_def by (rule checkPhaseTimes_fold)



lemma schedule_stage_Some [simp]:
  "schedule_statuses h ps (Some e) = Some e"
  "schedule_types h ps (Some e) = Some e"
  "checkPhaseTimes (Some e) ps h = Some e"
  by (simp_all add: schedule_statuses_def schedule_types_def checkPhaseTimes_first_error
        split: option.splits)

lemma schedule_rejected:
  assumes "dbConnectionMap connection" and "schedule_validate l (helper a) (params connection) = Some e"
  shows "getSRMSchedule_run l a connection = (Inl e, [])"
  using assms by (simp add: getSRMSchedule_run_def Let_def)

lemma search_rejected:
  assumes "dbConnectionMap connection" and "params connection ''challengeName'' = Some name"
      and "search_validate l (helper a) (params connection)
             (orString (Some (''%'' @ toLowerCase name @ ''%'')) ''%'') = Some e"
  shows "searchSRMChallenges_run l a connection = (Inl e, [])"
  using assms by (simp add: searchSRMChallenges_run_def Let_def)

text \<open>The page size is asked for when a page index other than the sentinel is given.\<close>

lemma pageSize_required:
  assumes conn: "dbConnectionMap connection"
      and helper: "checkDefined (helper a) = spec_checkDefined"
      and index: "params connection ''pageIndex'' = Some p" "NumberOr l (Some p) 1 \<noteq> Num (- 1)"
      and size: "params connection ''pageSize'' = None"
  shows "getSRMSchedule_run l a connection =
           (Inl (IllegalArgumentError ''pageSize should not be null or undefined''), [])"
    and "params connection ''challengeName'' \<noteq> None \<Longrightarrow>
         searchSRMChallenges_run l a connection =
           (Inl (IllegalArgumentError ''pageSize should not be null or undefined''), [])"
proof -
  let ?e = "IllegalArgumentError ''pageSize should not be null or undefined''"
  have "schedule_paging l (helper a) (params connection) = Some ?e"
    using helper index size
    by (simp add: schedule_paging_def isDefined_def spec_checkDefined_def Let_def)
  then have "schedule_validate l (helper a) (params connection) = Some ?e"
    by (simp add: schedule_validate_def Let_def)
  with conn show "getSRMSchedule_run l a connection = (Inl ?e, [])"
    by (rule schedule_rejected)
  assume "params connection ''challengeName'' \<noteq> None"
  then obtain name where name: "params connection ''challengeName'' = Some name" by auto
  have "search_validate l (helper a) (params connection)
          (orString (Some (''%'' @ toLowerCase name @ ''%'')) ''%'') = Some ?e"
    using helper index size
    by (simp add: search_validate_def isDefined_def spec_checkDefined_def Let_def)
  with conn name show "searchSRMChallenges_run l a connection = (Inl ?e, [])"
    by (rule search_rejected)
qed

text \<open>
  X1.  With the connection map there and \<^verbatim>\<open>checkDefined\<close> as the specification has it:
  a \<^verbatim>\<open>getSRMSchedule\<close> request that gives a page index other than \<open>-1\<close> and no page
  size ends with the invalid-argument error that names \<^verbatim>\<open>pageSize\<close>, without any
  query; so does such a \<^verbatim>\<open>searchSRMChallenges\<close> request when it gives a challenge
  name.
\<close>

theorem pageSize_required_with_pageIndex:
  assumes "dbConnectionMap connection"
      and "checkDefined (helper a) = spec_checkDefined"
      and "params connection ''pageIndex'' = Some p" and "NumberOr l (Some p) 1 \<noteq> Num (- 1)"
      and "params connection ''pageSize'' = None"
  shows "getSRMSchedule_run l a connection =
           (Inl (IllegalArgumentError ''pageSize should not be null or undefined''), [])
       \<and> (params connection ''challengeName'' \<noteq> None \<longrightarrow>
            searchSRMChallenges_run l a connection =
              (Inl (IllegalArgumentError ''pageSize should not be null or undefined''), []))"
  using pageSize_required [OF assms] by simp

theorem pageSize_required_with_pageIndex_witness:
  "getSRMSchedule_run exampleLib (exampleApi [] 0) (exampleConnection [''pageIndex'' \<mapsto> ''2''])
     = (Inl (IllegalArgumentError ''pageSize should not be null or undefined''), [])
   \<and> searchSRMChallenges_run exampleLib (exampleApi [] 0)
       (exampleConnection [''pageIndex'' \<mapsto> ''2'', ''challengeName'' \<mapsto> ''srm''])
     = (Inl (IllegalArgumentError ''pageSize should not be null or undefined''), [])"
proof -
  define a where "a = exampleApi [] 0"
  define c1 where "c1 = exampleConnection [''pageIndex'' \<mapsto> ''2'']"
  define c2 where "c2 = exampleConnection [''pageIndex'' \<mapsto> ''2'', ''challengeName'' \<mapsto> ''srm'']"
  have conn: "dbConnectionMap c1" "dbConnectionMap c2"
    by (simp_all add: c1_def c2_def exampleConnection_def)
  have helper: "checkDefined (helper a) = spec_checkDefined"
    by (simp add: a_def exampleApi_def specHelper_def)
  have index: "params c1 ''pageIndex'' = Some ''2''" "params c2 ''pageIndex'' = Some ''2''"
   and size: "params c1 ''pageSize'' = None" "params c2 ''pageSize'' = None"
   and name: "params c2 ''challengeName'' \<noteq> None"
    by (simp_all add: c1_def c2_def exampleConnection_def)
  have two: "NumberOr exampleLib (Some ''2'') 1 \<noteq> Num (- 1)"
    by code_simp
  from pageSize_required_with_pageIndex [OF conn(1) helper index(1) two size(1)]
       pageSize_required_with_pageIndex [OF conn(2) helper index(2) two size(2)] name
  show ?thesis unfolding a_def c1_def c2_def by simp
qed

text \<open>
  C10, at the request \<^verbatim>\<open>{pageIndex: "2"}\<close> of \<^verbatim>\<open>searchSRMChallenges\<close>: a page index
  other than \<open>-1\<close> and no page size, and no challenge name.  The run throws on the
  missing challenge name before it reaches the check of the page size.
\<close>

theorem searchSRMChallenges_pageSize_check_not_reached:
  "params (exampleConnection [''pageIndex'' \<mapsto> ''2'']) ''pageSize'' = None
   \<and> NumberOr exampleLib (params (exampleConnection [''pageIndex'' \<mapsto> ''2'']) ''pageIndex'') 1 = Num 2
   \<and> isl (fst (searchSRMChallenges_run exampleLib (exampleApi [] 0)
             (exampleConnection [''pageIndex'' \<mapsto> ''2''])))
   \<and> projl (fst (searchSRMChallenges_run exampleLib (exampleApi [] 0)
             (exampleConnection [''pageIndex'' \<mapsto> ''2''])))
       = TypeError ''Cannot read property toLowerCase of undefined''
   \<and> length (snd (searchSRMChallenges_run exampleLib (exampleApi [] 0)
             (exampleConnection [''pageIndex'' \<mapsto> ''2'']))) = 0"
  by (intro conjI; code_simp)




lemma validatePhaseTime_both:
  "validatePhaseTime None (Some b) nb (Some a) na h =
     orElse (validateDate h b nb SCHEDULE_DATE_FORMAT)
    (orElse (validateDate h a na SCHEDULE_DATE_FORMAT)
            (checkDates h a b (na @ '' should be earlier than '' @ nb)))"
  by (cases "validateDate h b nb SCHEDULE_DATE_FORMAT")
     (simp_all add: validatePhaseTime_def Let_def)

lemma validatePhaseTime_one:
  "validatePhaseTime None (Some b) nb None na h = validateDate h b nb SCHEDULE_DATE_FORMAT"
  "validatePhaseTime None None nb (Some a) na h = validateDate h a na SCHEDULE_DATE_FORMAT"
  "validatePhaseTime None None nb None na h = None"
  by (simp_all add: validatePhaseTime_def Let_def)




text \<open>
  C5, as the code has it.  With \<^verbatim>\<open>checkDates\<close> as the specification has it, the
  validator of a pair of phase times gives the ordering error exactly when both
  bounds are given and the After bound is later than the Before bound (for two dates
  of the right format); with one bound only it checks the format of this bound and
  nothing else, with none it checks nothing.  \<^verbatim>\<open>checkPhaseTimes\<close> keeps an error it is
  given and else gives the first error of the ten pairs.
\<close>

theorem phase_time_order_rule:
  assumes helper: "checkDates h = spec_checkDates parse"
  shows "(validateDate h b nb SCHEDULE_DATE_FORMAT = None
          \<and> validateDate h af na SCHEDULE_DATE_FORMAT = None
          \<and> parse b = Some tb \<and> parse af = Some ta \<longrightarrow>
            validatePhaseTime None (Some b) nb (Some af) na h =
              (if tb < ta then Some (IllegalArgumentError (na @ '' should be earlier than '' @ nb))
               else None))
       \<and> validatePhaseTime None (Some b) nb None na h = validateDate h b nb SCHEDULE_DATE_FORMAT
       \<and> validatePhaseTime None None nb (Some af) na h = validateDate h af na SCHEDULE_DATE_FORMAT
       \<and> validatePhaseTime None None nb None na h = None
       \<and> checkPhaseTimes error ps h =
           orElse error
             (foldr orElse
                (map (\<lambda>phase. validatePhaseTime None (ps (phase @ ''Before'')) (phase @ ''Before'')
                                  (ps (phase @ ''After'')) (phase @ ''After'') h) PHASE_TIMES) None)"
  by (simp add: validatePhaseTime_both validatePhaseTime_one helper spec_checkDates_def
        checkPhaseTimes_first_error)

theorem phase_time_order_rule_witness:
  "validatePhaseTime None (Some ''2020-01-01T00:00:00.000+0000'') ''registrationStartTimeBefore''
      (Some ''2020-02-01T00:00:00.000+0000'') ''registrationStartTimeAfter'' (specHelper exampleDates)
     = Some (IllegalArgumentError
               ''registrationStartTimeAfter should be earlier than registrationStartTimeBefore'')
   \<and> validatePhaseTime None (Some ''2020-02-01T00:00:00.000+0000'') ''registrationStartTimeBefore''
      (Some ''2020-01-01T00:00:00.000+0000'') ''registrationStartTimeAfter'' (specHelper exampleDates)
     = None
   \<and> validatePhaseTime None None ''registrationStartTimeBefore''
      (Some ''2020-01-01T00:00:00.000+0000'') ''registrationStartTimeAfter'' (specHelper exampleDates)
     = None"
proof -
  define h where "h = specHelper exampleDates"
  have helper: "checkDates h = spec_checkDates exampleDates"
    by (simp add: h_def specHelper_def)
  have jan: "exampleDates ''2020-01-01T00:00:00.000+0000'' = Some 1577836800000"
   and feb: "exampleDates ''2020-02-01T00:00:00.000+0000'' = Some 1580515200000"
    by (simp_all add: exampleDates_def)
  have fmt: "validateDate h ''2020-01-01T00:00:00.000+0000'' n SCHEDULE_DATE_FORMAT = None"
    "validateDate h ''2020-02-01T00:00:00.000+0000'' n SCHEDULE_DATE_FORMAT = None" for n
    by (simp_all add: h_def specHelper_def spec_validateDate_def jan feb)
  note rule = phase_time_order_rule [OF helper]
  from rule [where b = "''2020-01-01T00:00:00.000+0000''" and af = "''2020-02-01T00:00:00.000+0000''"
               and nb = "''registrationStartTimeBefore''" and na = "''registrationStartTimeAfter''"
               and tb = 1577836800000 and ta = 1580515200000]
       rule [where b = "''2020-02-01T00:00:00.000+0000''" and af = "''2020-01-01T00:00:00.000+0000''"
               and nb = "''registrationStartTimeBefore''" and na = "''registrationStartTimeAfter''"
               and tb = 1580515200000 and ta = 1577836800000]
       fmt jan feb
  show ?thesis unfolding h_def by simp
qed

theorem phase_time_order_counterexample:
  "exampleDates ''2020-01-01T00:00:00.000+0000'' = Some 1577836800000
   \<and> exampleDates ''2020-02-01T00:00:00.000+0000'' = Some 1580515200000
   \<and> \<not> isl (fst (getSRMSchedule_run exampleLib (exampleApi [] 5)
      (exampleConnection [''registrationStartTimeBefore'' \<mapsto> ''2020-02-01T00:00:00.000+0000'',
                          ''registrationStartTimeAfter'' \<mapsto> ''2020-01-01T00:00:00.000+0000''])))
   \<and> length (snd (getSRMSchedule_run exampleLib (exampleApi [] 5)
      (exampleConnection [''registrationStartTimeBefore'' \<mapsto> ''2020-02-01T00:00:00.000+0000'',
                          ''registrationStartTimeAfter'' \<mapsto> ''2020-01-01T00:00:00.000+0000'']))) = 2
   \<and> isl (fst (getSRMSchedule_run exampleLib (exampleApi [] 5)
      (exampleConnection [''registrationStartTimeBefore'' \<mapsto> ''2020-01-01T00:00:00.000+0000'',
                          ''registrationStartTimeAfter'' \<mapsto> ''2020-02-01T00:00:00.000+0000''])))"
  by (intro conjI; code_simp)

section \<open>Properties of the subset checks\<close>

lemma practice_stage_Some [simp]:
  "practice_statuses h ps (Some e) = Some e"
  "practice_problemName ps (Some e) = Some e"
  "practice_difficulty h ps (Some e) = Some e"
  "practice_problemTypes h ps (Some e) = Some e"
  "practice_points l h ps (Some e) = Some e"
  "practice_myPoints l h ps (Some e) = Some e"
  by (simp_all add: practice_statuses_def practice_problemName_def practice_difficulty_def
        practice_problemTypes_def practice_points_def practice_myPoints_def Let_def
        split: option.splits)







section \<open>Properties of the contest update\<close>

lemma series_calls: "prefix (snd (series a qs)) (map (\<lambda>(name, ps). ExecuteQuery name ps) qs)"
  by (induction a qs rule: series.induct) (auto split: sum.splits prod.splits)

lemma series_ok:
  "\<forall>(name, ps) \<in> set qs. \<not> isl (executeQuery a name ps) \<Longrightarrow>
     \<exists>rs. series a qs = (Inr rs, map (\<lambda>(name, ps). ExecuteQuery name ps) qs)"
  by (induction a qs rule: series.induct) (auto split: sum.splits prod.splits)

text \<open>
  C7.  For an update whose caller passes the admin check and whose validation passes
  \<open>v\<close> on (after the calls \<open>calls0\<close>).  When the validated \<^verbatim>\<open>id\<close> differs from the
  validated \<^verbatim>\<open>contestId\<close>, the calls that follow are the four calls insert, update,
  relink, delete in this order, up to the first that fails, and no other call; when
  none of the four fails the update succeeds with exactly these four calls.  When the
  two are equal, the one call that follows is the plain update.
\<close>

theorem updateSRMContest_write_sequence:
  assumes admin: "checkAdmin (helper a) (caller connection) UNAUTHORIZED_MESSAGE NON_ADMIN_MESSAGE = None"
      and validate: "validate = (Inr v, calls0)"
      and four: "four = [ExecuteQuery ''insert_srm_contest'' (validate_sqlParams v),
                         ExecuteQuery ''update_srm_contest'' (validate_sqlParams v),
                         ExecuteQuery ''update_srm_contest_id''
                           (emptyObj(''contestId'' := validate_contestId v, ''id'' := validate_id v)),
                         ExecuteQuery ''delete_srm_contest'' (emptyObj(''id'' := validate_id v))]"
  shows "(strictNeq (validate_id v) (validate_contestId v) \<longrightarrow>
            (\<exists>calls1. snd (updateSRMContest_run a connection validate) = calls0 @ calls1
                     \<and> prefix calls1 four)
          \<and> ((\<forall>c \<in> set four. \<not> isl (answer a c)) \<longrightarrow>
                updateSRMContest_run a connection validate = (Inr Success, calls0 @ four)))
       \<and> (\<not> strictNeq (validate_id v) (validate_contestId v) \<longrightarrow>
            snd (updateSRMContest_run a connection validate)
              = calls0 @ [ExecuteQuery ''update_srm_contest'' (validate_sqlParams v)])"
proof -
  let ?qs = "[(''insert_srm_contest'', validate_sqlParams v),
              (''update_srm_contest'', validate_sqlParams v),
              (''update_srm_contest_id'',
                 emptyObj(''contestId'' := validate_contestId v, ''id'' := validate_id v)),
              (''delete_srm_contest'', emptyObj(''id'' := validate_id v))]"
  have map: "map (\<lambda>(name, ps). ExecuteQuery name ps) ?qs = four" by (simp add: four)
  have changed: "(\<exists>calls1. snd (updateSRMContest_run a connection validate) = calls0 @ calls1
                     \<and> prefix calls1 four)
          \<and> ((\<forall>c \<in> set four. \<not> isl (answer a c)) \<longrightarrow>
                updateSRMContest_run a connection validate = (Inr Success, calls0 @ four))"
    if neq: "strictNeq (validate_id v) (validate_contestId v)"
  proof
    obtain r calls1 where s: "series a ?qs = (r, calls1)" by fastforce
    have "prefix (snd (series a ?qs)) four"
      using series_calls [of a ?qs] unfolding map .
    then have p: "prefix calls1 four" by (simp only: s snd_conv)
    have "snd (updateSRMContest_run a connection validate) = calls0 @ calls1"
      using admin neq s
      by (cases r) (simp_all add: updateSRMContest_run_def validate updateContestId_def
            updateContest_def Let_def)
    with p show "\<exists>calls1. snd (updateSRMContest_run a connection validate) = calls0 @ calls1
                     \<and> prefix calls1 four" by blast
    show "(\<forall>c \<in> set four. \<not> isl (answer a c)) \<longrightarrow>
                updateSRMContest_run a connection validate = (Inr Success, calls0 @ four)"
    proof
      assume "\<forall>c \<in> set four. \<not> isl (answer a c)"
      then have "\<forall>(name, ps) \<in> set ?qs. \<not> isl (executeQuery a name ps)"
        by (simp add: four)
      from series_ok [OF this] obtain rs where "series a ?qs = (Inr rs, four)"
        unfolding map by blast
      then show "updateSRMContest_run a connection validate = (Inr Success, calls0 @ four)"
        using admin neq
        by (simp add: updateSRMContest_run_def validate updateContestId_def updateContest_def Let_def)
    qed
  qed
  have same: "snd (updateSRMContest_run a connection validate)
              = calls0 @ [ExecuteQuery ''update_srm_contest'' (validate_sqlParams v)]"
    if "\<not> strictNeq (validate_id v) (validate_contestId v)"
    using admin that
    by (cases "executeQuery a ''update_srm_contest'' (validate_sqlParams v)")
       (simp_all add: updateSRMContest_run_def validate updateContestId_def updateContest_def Let_def)
  from changed same show ?thesis by blast
qed

theorem updateSRMContest_write_sequence_witness:
  "updateSRMContest_run (exampleApi [] 0) (exampleConnection Map.empty)
     (Inr \<lparr> validate_id = Number (Num 7), validate_contestId = Number (Num 9),
            validate_sqlParams = emptyObj(''name'' := String [dquote, CHR ''S'', dquote]) \<rparr>, [])
   = (Inr Success,
      [ExecuteQuery ''insert_srm_contest'' (emptyObj(''name'' := String [dquote, CHR ''S'', dquote])),
       ExecuteQuery ''update_srm_contest'' (emptyObj(''name'' := String [dquote, CHR ''S'', dquote])),
       ExecuteQuery ''update_srm_contest_id''
         (emptyObj(''contestId'' := Number (Num 9), ''id'' := Number (Num 7))),
       ExecuteQuery ''delete_srm_contest'' (emptyObj(''id'' := Number (Num 7)))])
   \<and> snd (updateSRMContest_run (exampleApi [] 0) (exampleConnection Map.empty)
     (Inr \<lparr> validate_id = Number (Num 7), validate_contestId = Number (Num 7),
            validate_sqlParams = emptyObj(''name'' := String [dquote, CHR ''S'', dquote]) \<rparr>, []))
   = [ExecuteQuery ''update_srm_contest'' (emptyObj(''name'' := String [dquote, CHR ''S'', dquote]))]"
proof -
  define a where "a = exampleApi [] 0"
  define c where "c = exampleConnection Map.empty"
  define sp where "sp = emptyObj(''name'' := String [dquote, CHR ''S'', dquote])"
  define v1 where "v1 = \<lparr> validate_id = Number (Num 7), validate_contestId = Number (Num 9),
                          validate_sqlParams = sp \<rparr>"
  define v2 where "v2 = \<lparr> validate_id = Number (Num 7), validate_contestId = Number (Num 7),
                          validate_sqlParams = sp \<rparr>"
  have admin: "checkAdmin (helper a) (caller c) UNAUTHORIZED_MESSAGE NON_ADMIN_MESSAGE = None"
    by (simp add: a_def c_def exampleApi_def specHelper_def exampleConnection_def exampleCaller_def
          spec_checkAdmin_def)
  have answers: "\<not> isl (answer a (ExecuteQuery name ps))" for name ps
    by (simp add: a_def exampleApi_def)
  have neq: "strictNeq (validate_id v1) (validate_contestId v1)"
   and eq: "\<not> strictNeq (validate_id v2) (validate_contestId v2)"
    by (simp_all add: v1_def v2_def strictNeq_def)
  from updateSRMContest_write_sequence [OF admin refl refl, of v1 "[]"] neq answers
  have r1: "updateSRMContest_run a c (Inr v1, []) =
      (Inr Success,
       [ExecuteQuery ''insert_srm_contest'' sp, ExecuteQuery ''update_srm_contest'' sp,
        ExecuteQuery ''update_srm_contest_id''
          (emptyObj(''contestId'' := Number (Num 9), ''id'' := Number (Num 7))),
        ExecuteQuery ''delete_srm_contest'' (emptyObj(''id'' := Number (Num 7)))])"
    by (simp add: v1_def)
  from updateSRMContest_write_sequence [OF admin refl refl, of v2 "[]"] eq
  have r2: "snd (updateSRMContest_run a c (Inr v2, [])) = [ExecuteQuery ''update_srm_contest'' sp]"
    by (simp add: v2_def)
  from r1 r2 show ?thesis unfolding a_def c_def v1_def v2_def sp_def by simp
qed

end
